theory Spec2Isabelle
  imports Main "HOL-Library.Word"
begin

section \<open>funkyd: the query pipeline of the mutex server\<close>

text \<open>
  A shallow embedding of the resolution engine of funkyd, a caching DNS forwarder written
  in Go: \<^verbatim>\<open>src/mutex_server.go\<close> (GetConnection, attemptExchange, RecursiveQuery,
  RetrieveRecords, HandleDNS) and the first file of \<^verbatim>\<open>src/server.go\<close> (processResults,
  sendServfail, logQuery).

  One inbound query is followed from HandleDNS to the reply. The goroutine that HandleDNS
  starts is run to its end in place, so the model is the sequential behaviour of one query;
  interleavings with other queries are not part of it. Calls of the server logger
  (\<^verbatim>\<open>Logger.Log\<close>) write diagnostics only and are left out; the query logger is modelled.
\<close>

subsection \<open>DNS messages (github.com/miekg/dns)\<close>

type_synonym duration = int \<comment> \<open>time.Duration, in nanoseconds\<close>
type_synonym instant = int \<comment> \<open>time.Time, in nanoseconds since some epoch\<close>

definition Second :: duration where
  "Second = 1000000000"

record Question =
  Name :: string
  Qtype :: "16 word"
  Qclass :: "16 word"

text \<open>
  A resource record: the fields of its header, and \<open>rr_String\<close>, the text that the
  library's \<^verbatim>\<open>String()\<close> method renders for it.
\<close>

record RR =
  Hdr_Name :: string
  Hdr_Rrtype :: "16 word"
  Hdr_Class :: "16 word"
  Hdr_Ttl :: "32 word"
  rr_String :: string

record Msg =
  MsgId :: "16 word"
  Response_bit :: bool
  Opcode :: int
  Authoritative :: bool
  Truncated :: bool
  RecursionDesired :: bool
  RecursionAvailable :: bool
  Zero_bit :: bool
  AuthenticatedData :: bool
  CheckingDisabled :: bool
  Rcode :: int
  Question :: "Question list"
  Answer :: "RR list"
  Ns :: "RR list"
  Extra :: "RR list"

definition OpcodeQuery :: int where "OpcodeQuery = 0"
definition RcodeSuccess :: int where "RcodeSuccess = 0"
definition RcodeServerFailure :: int where "RcodeServerFailure = 2"
definition ClassINET :: "16 word" where "ClassINET = 1"
definition TypeA :: "16 word" where "TypeA = 1"

text \<open>The zero value \<^verbatim>\<open>dns.Msg{}\<close>.\<close>

definition empty_Msg :: Msg where
  "empty_Msg = \<lparr> MsgId = 0, Response_bit = False, Opcode = 0, Authoritative = False,
     Truncated = False, RecursionDesired = False, RecursionAvailable = False,
     Zero_bit = False, AuthenticatedData = False, CheckingDisabled = False, Rcode = 0,
     Question = [], Answer = [], Ns = [], Extra = [] \<rparr>"

text \<open>
  \<^verbatim>\<open>(*Msg).SetReply(request)\<close>: id and opcode of the request, the response bit, the rd and
  cd bits of a standard query, rcode success, and the first question of the request when it
  has one. Every other field of the receiver is left as it is.
\<close>

definition SetReply :: "Msg \<Rightarrow> Msg \<Rightarrow> Msg" where
  "SetReply d request =
     (let d1 = d\<lparr> MsgId := MsgId request, Response_bit := True, Opcode := Opcode request \<rparr>;
          d2 = (if Opcode d1 = OpcodeQuery
                then d1\<lparr> RecursionDesired := RecursionDesired request,
                         CheckingDisabled := CheckingDisabled request \<rparr>
                else d1);
          d3 = d2\<lparr> Rcode := RcodeSuccess \<rparr>
      in (case Question request of
            [] \<Rightarrow> d3
          | q # _ \<Rightarrow> d3\<lparr> Question := [q] \<rparr>))"

text \<open>\<^verbatim>\<open>(*Msg).SetRcode(request, rcode)\<close>: SetReply, then the rcode.\<close>

definition SetRcode :: "Msg \<Rightarrow> Msg \<Rightarrow> int \<Rightarrow> Msg" where
  "SetRcode d request rcode = (SetReply d request)\<lparr> Rcode := rcode \<rparr>"

text \<open>
  \<^verbatim>\<open>(*Msg).SetQuestion(z, t)\<close>: a fresh id (drawn by the library, here the argument
  \<open>fresh\<close>), the rd bit, and the single question \<open>(z, t, IN)\<close>.
\<close>

definition SetQuestion :: "Msg \<Rightarrow> string \<Rightarrow> 16 word \<Rightarrow> 16 word \<Rightarrow> Msg" where
  "SetQuestion d z t fresh =
     d\<lparr> MsgId := fresh, RecursionDesired := True,
        Question := [\<lparr> Name = z, Qtype = t, Qclass = ClassINET \<rparr>] \<rparr>"

text \<open>\<^verbatim>\<open>(*Msg).Copy()\<close> is a deep copy; on values it is the identity.\<close>

definition Copy :: "Msg \<Rightarrow> Msg" where
  "Copy d = d"

subsection \<open>Upstreams, connection entries, responses\<close>

text \<open>
  Modelled from the spec: the declaration of \<^verbatim>\<open>Upstream\<close> is not among the sources.
  Section 3: name, weight (an integer) and address; the zero value \<^verbatim>\<open>Upstream{}\<close> is what
  GetConnection compares with.
\<close>

record Upstream =
  Upstream_Name :: string
  Weight :: int
  Address :: string

definition empty_Upstream :: Upstream where
  "empty_Upstream = \<lparr> Upstream_Name = [], Weight = 0, Address = [] \<rparr>"

text \<open>
  Modelled from the spec: \<^verbatim>\<open>Upstream.GetAddress\<close> is not among the sources. Section 3: the
  address is derived as \<open>name:853\<close> if unset.
\<close>

definition Upstream_GetAddress :: "Upstream \<Rightarrow> string" where
  "Upstream_GetAddress u = (if Address u = [] then Upstream_Name u @ '':853'' else Address u)"

type_synonym conn = nat \<comment> \<open>a transport handle, \<^verbatim>\<open>*dns.Conn\<close>\<close>

text \<open>
  Modelled from the spec: the declaration of \<^verbatim>\<open>ConnEntry\<close> is not among the sources.
  Section 3: the connection, the upstream, the total round-trip time and the numbers of
  exchanges and of errors. \<^verbatim>\<open>Conn\<close> holds an interface value, which attemptExchange
  asserts to be a \<^verbatim>\<open>*dns.Conn\<close>.
\<close>

record ConnEntry =
  Conn :: "conn option" \<comment> \<open>\<open>None\<close> is the nil interface value\<close>
  upstream :: Upstream
  totalRTT :: duration
  exchanges :: int
  errors :: int

text \<open>The zero value \<^verbatim>\<open>ConnEntry{}\<close>.\<close>

definition empty_ConnEntry :: ConnEntry where
  "empty_ConnEntry = \<lparr> Conn = None, upstream = empty_Upstream, totalRTT = 0,
     exchanges = 0, errors = 0 \<rparr>"

text \<open>
  Modelled from the spec: \<^verbatim>\<open>ConnEntry.AddExchange\<close> is not among the sources. It records
  one exchange and its round-trip time in the health counters (section 3: the mean RTT is
  \<open>total_rtt / exchanges\<close>).
\<close>

definition AddExchange :: "ConnEntry \<Rightarrow> duration \<Rightarrow> ConnEntry" where
  "AddExchange ce rtt = ce\<lparr> totalRTT := totalRTT ce + rtt, exchanges := exchanges ce + 1 \<rparr>"

text \<open>
  Modelled from the spec: \<^verbatim>\<open>ConnEntry.AddError\<close> is not among the sources. It records one
  error in the health counters.
\<close>

definition AddError :: "ConnEntry \<Rightarrow> ConnEntry" where
  "AddError ce = ce\<lparr> errors := errors ce + 1 \<rparr>"

text \<open>
  Modelled from the spec: \<^verbatim>\<open>ConnEntry.GetAddress\<close> is not among the sources. The address
  of an entry is its upstream's (section 3: every entry's upstream address equals its key).
\<close>

definition GetAddress :: "ConnEntry \<Rightarrow> string" where
  "GetAddress ce = Upstream_GetAddress (upstream ce)"

text \<open>
  \<^verbatim>\<open>Response\<close>: its declaration is not among the sources; the five fields are those of
  the composite literals in processResults and ParseZoneFile.
\<close>

record Response =
  Key :: string
  Entry :: Msg
  Ttl :: duration
  Qtype_resp :: "16 word"
  CreationTime :: instant

text \<open>The zero value \<^verbatim>\<open>Response{}\<close>.\<close>

definition empty_Response :: Response where
  "empty_Response = \<lparr> Key = [], Entry = empty_Msg, Ttl = 0, Qtype_resp = 0,
     CreationTime = 0 \<rparr>"

subsection \<open>Errors and panics\<close>

text \<open>
  Go's error values, one constructor for each \<^verbatim>\<open>fmt.Errorf\<close> of the modelled functions;
  the wrapped error is the cause that the message quotes. \<open>External\<close> is an error that the
  connection pool, the client or the semaphore hands in.
\<close>

datatype error =
    External string
  | CouldNotConnect string error \<comment> \<open>could not connect to upstream [address]: cause\<close>
  | ErrorGettingConnection error \<comment> \<open>error getting connection from pool: cause\<close>
  | ErrorLookingUp string string \<comment> \<open>error looking up domain [name] on server [address]\<close>
  | FailedExchanges error \<comment> \<open>failed to complete any exchanges with upstreams: cause\<close>
  | ErrorRecursiveQuery string error \<comment> \<open>error running recursive query on domain [d]: cause\<close>
  | TokenError string \<comment> \<open>token error: cause\<close>

text \<open>A run-time panic ends the function (and, in a goroutine, the process).\<close>

datatype panic =
    IndexOutOfRange
  | NilDereference
  | TypeAssertion
  | AcquireFailed error

subsection \<open>The response cache\<close>

text \<open>
  Modelled from the spec: \<^verbatim>\<open>RecordCache\<close> is not among the sources. Section 3: a mapping
  from (key, qtype) to the Response.
\<close>

type_synonym RecordCache = "(string \<times> 16 word) \<rightharpoonup> Response"

text \<open>
  Modelled from the spec: the lowercasing of a name in \<^verbatim>\<open>RecordCache.Get\<close> (section 4.3:
  lowercase the name before keying). It maps the letters A to Z; DNS names are ASCII.
\<close>

definition lower_char :: "char \<Rightarrow> char" where
  "lower_char c =
     (case map_of (zip ''ABCDEFGHIJKLMNOPQRSTUVWXYZ'' ''abcdefghijklmnopqrstuvwxyz'') c of
        None \<Rightarrow> c
      | Some l \<Rightarrow> l)"

definition lowercase :: "string \<Rightarrow> string" where
  "lowercase s = map lower_char s"

text \<open>
  Modelled from the spec: the test for a resident entry in \<^verbatim>\<open>RecordCache.Get\<close>
  (section 4.3: only if \<open>now < creation_time + ttl\<close>).
\<close>

definition live :: "instant \<Rightarrow> Response \<Rightarrow> bool" where
  "live now r \<longleftrightarrow> now < CreationTime r + Ttl r"

text \<open>
  Modelled from the spec: \<^verbatim>\<open>RecordCache.Get\<close> is not among the sources. Section 4.3:
  lowercase the name before keying; return (response, true) only if
  \<open>now < creation_time + ttl\<close>; an expired entry is reported as a miss.
\<close>

definition cache_Get :: "RecordCache \<Rightarrow> instant \<Rightarrow> string \<Rightarrow> 16 word \<Rightarrow> Response \<times> bool" where
  "cache_Get c now name qtype =
     (case c (lowercase name, qtype) of
        None \<Rightarrow> (empty_Response, False)
      | Some r \<Rightarrow> if live now r then (r, True) else (empty_Response, False))"

text \<open>
  Modelled from the spec: \<^verbatim>\<open>RecordCache.Add\<close> is not among the sources. Section 4.3:
  insert or overwrite at \<open>(response.key, response.qtype)\<close>; the newer entry wins.
\<close>

definition cache_Add :: "RecordCache \<Rightarrow> Response \<Rightarrow> RecordCache" where
  "cache_Add c r = c((Key r, Qtype_resp r) \<mapsto> r)"

subsection \<open>processResults and the zone-file parser\<close>

text \<open>
  \<^verbatim>\<open>processResults\<close> (src/server.go, lines 59 to 66). \<open>now\<close> is the value of
  \<^verbatim>\<open>time.Now()\<close>. The composite literal names four fields; \<^verbatim>\<open>Ttl\<close> is not among them and
  keeps the zero value.
\<close>

definition processResults :: "Msg \<Rightarrow> string \<Rightarrow> 16 word \<Rightarrow> instant \<Rightarrow> Response \<times> error option" where
  "processResults r domain rrtype now =
     (\<lparr> Key = domain, Entry = r, Ttl = 0, Qtype_resp = rrtype, CreationTime = now \<rparr>, None)"

text \<open>
  \<^verbatim>\<open>ParseZoneFile\<close> (src/utils_test.go, second file): the tokens of the library's zone
  parser are the input, each an error text or a record. The first token error ends the
  function; every record becomes a Response whose message has that record as its only
  answer.
\<close>

definition zone_Response :: "RR \<Rightarrow> instant \<Rightarrow> Response" where
  "zone_Response rr now =
     \<lparr> Key = Hdr_Name rr, Entry = empty_Msg\<lparr> Answer := [rr] \<rparr>,
       Ttl = uint (Hdr_Ttl rr) * Second, Qtype_resp = Hdr_Rrtype rr, CreationTime = now \<rparr>"

fun ParseZoneFile :: "(string + RR) list \<Rightarrow> instant \<Rightarrow> Response list \<Rightarrow> error + Response list" where
  "ParseZoneFile [] now responses = Inr responses"
| "ParseZoneFile (Inl e # tokens) now responses = Inl (TokenError e)"
| "ParseZoneFile (Inr rr # tokens) now responses =
     ParseZoneFile tokens now (responses @ [zone_Response rr now])"

text \<open>
  The loop of \<^verbatim>\<open>main\<close> (src/main.go, lines 101 to 105) that adds the parsed responses to
  the hosted cache.
\<close>

definition load_zone :: "Response list \<Rightarrow> RecordCache \<Rightarrow> RecordCache" where
  "load_zone responses hosted = fold (\<lambda>response c. cache_Add c response) responses hosted"

subsection \<open>The server's state and its collaborators\<close>

text \<open>
  The connection pool and the DNS client are interfaces (\<^verbatim>\<open>ConnPool\<close>, \<^verbatim>\<open>Client\<close>); the
  server works against any implementation, and the tests of the repository inject mocks.
  They are parameters here: \<open>'w\<close> is the state of everything outside the server (pool,
  upstream resolvers, clock, semaphore), and an \<open>Env\<close> gives the result of each call and
  the state it leaves. A \<^verbatim>\<open>*ConnEntry\<close> and a \<^verbatim>\<open>*dns.Msg\<close> may be nil: \<open>None\<close>.

  \<^item> \<open>pool_Get\<close>: \<^verbatim>\<open>ConnPool.Get()\<close> as GetConnection calls it, with three results.
  \<^item> \<open>pool_NewConnection\<close>: \<^verbatim>\<open>ConnPool.NewConnection(upstream, client.Dial)\<close>.
  \<^item> \<open>pool_Add\<close>, \<open>pool_CloseConnection\<close>: \<^verbatim>\<open>ConnPool.Add(ce)\<close>, \<^verbatim>\<open>CloseConnection(ce)\<close>.
  \<^item> \<open>client_ExchangeWithConn\<close>: reply, round-trip time and error of one exchange.
  \<^item> \<open>dns_Id\<close>: the id that SetQuestion draws. \<open>time_Now\<close>: the clock.
  \<^item> \<open>sem_Acquire\<close>: the error of \<^verbatim>\<open>sem.Acquire(ctx, 1)\<close>, if any.
\<close>

record 'w Env =
  pool_Get :: "'w \<Rightarrow> (ConnEntry option \<times> Upstream \<times> error option) \<times> 'w"
  pool_NewConnection :: "Upstream \<Rightarrow> 'w \<Rightarrow> (ConnEntry option \<times> error option) \<times> 'w"
  pool_Add :: "ConnEntry option \<Rightarrow> 'w \<Rightarrow> error option \<times> 'w"
  pool_CloseConnection :: "ConnEntry option \<Rightarrow> 'w \<Rightarrow> 'w"
  client_ExchangeWithConn :: "Msg \<Rightarrow> conn \<Rightarrow> 'w \<Rightarrow> (Msg option \<times> duration \<times> error option) \<times> 'w"
  dns_Id :: "'w \<Rightarrow> 16 word \<times> 'w"
  time_Now :: "'w \<Rightarrow> instant"
  sem_Acquire :: "'w \<Rightarrow> error option"

text \<open>
  The calls that the server makes on its collaborators are recorded in order, as a mock
  records them; \<open>EnterAttemptExchange\<close> marks each entry into attemptExchange.
\<close>

datatype call =
    EnterAttemptExchange
  | PoolGet
  | PoolNewConnection Upstream
  | PoolAdd "ConnEntry option"
  | PoolCloseConnection "ConnEntry option"
  | ClientExchangeWithConn Msg conn

text \<open>One record of the query log: the six keys of the \<^verbatim>\<open>LogContext\<close> that logQuery builds.\<close>

record LogContext =
  log_name :: string
  log_type :: "16 word" \<comment> \<open>rendered by \<^verbatim>\<open>dns.Type(..).String()\<close>\<close>
  log_opcode :: int \<comment> \<open>rendered by \<^verbatim>\<open>dns.OpcodeToString\<close>\<close>
  log_answer :: string
  log_answerSource :: string
  log_duration :: duration

text \<open>
  The server: its two caches, the world behind the interfaces, the Prometheus counters and
  the gauge that the modelled functions touch, the recorded calls, the messages written to
  the client (\<^verbatim>\<open>ResponseWriter.WriteMsg\<close>) and the records of the query logger.
\<close>

record 'w Server =
  Cache :: RecordCache
  HostedCache :: RecordCache
  world :: 'w
  TotalDnsQueriesCounter :: nat
  QueuedQueriesGauge :: int
  CacheHitsCounter :: nat
  HostedCacheHitsCounter :: nat
  RecursiveQueryCounter :: nat
  LocalServfailsCounter :: nat
  UpstreamErrorsCounter :: "string \<Rightarrow> nat"
  ReusedConnectionsCounter :: "string \<Rightarrow> nat"
  calls :: "call list"
  written :: "Msg list"
  query_log :: "LogContext list"

text \<open>
  Modelled from the spec: the \<^verbatim>\<open>Configuration\<close> struct among the sources predates the
  field \<^verbatim>\<open>UpstreamRetries\<close> that RecursiveQuery reads (section 3: upstream_retries). The
  loop compares it with an \<^verbatim>\<open>int\<close> counter, so it is an \<^verbatim>\<open>int\<close>, of 64 bits. The counter
  stays within \<open>0 .. UpstreamRetries + 1\<close>: for \<open>UpstreamRetries < 2 ^ 63 - 1\<close> it
  never wraps, and \<open>int\<close> is exact.
\<close>

record Configuration =
  UpstreamRetries :: int

definition record_call :: "call \<Rightarrow> 'w Server \<Rightarrow> 'w Server" where
  "record_call c s = s\<lparr> calls := calls s @ [c] \<rparr>"

definition Inc :: "(string \<Rightarrow> nat) \<Rightarrow> string \<Rightarrow> (string \<Rightarrow> nat)" where
  "Inc counter label = counter(label := counter label + 1)"

subsection \<open>The query logger and sendServfail\<close>

text \<open>\<^verbatim>\<open>strings.Split(s, " ")\<close>: the pieces of \<open>s\<close> between single spaces, never empty.\<close>

fun split_space :: "string \<Rightarrow> string list" where
  "split_space [] = [[]]"
| "split_space (c # cs) =
     (if c = CHR '' '' then [] # split_space cs
      else (case split_space cs of
              [] \<Rightarrow> [[c]]
            | w # ws \<Rightarrow> (c # w) # ws))"

text \<open>
  \<^verbatim>\<open>logQuery\<close> (src/server.go, lines 76 to 95): for each question, for each answer, one
  record. \<open>answerBits[len(answerBits)-1]\<close> is \<open>last\<close>; the split is never empty.
\<close>

definition logQuery_record :: "string \<Rightarrow> duration \<Rightarrow> Msg \<Rightarrow> Question \<Rightarrow> RR \<Rightarrow> LogContext" where
  "logQuery_record source duration response q a =
     \<lparr> log_name = Name q, log_type = Qtype q, log_opcode = Opcode response,
       log_answer = last (split_space (rr_String a)),
       log_answerSource = ''['' @ source @ '']'', log_duration = duration \<rparr>"

definition logQuery_records :: "string \<Rightarrow> duration \<Rightarrow> Msg \<Rightarrow> LogContext list" where
  "logQuery_records source duration response =
     concat (map (\<lambda>q. map (logQuery_record source duration response q) (Answer response))
                 (Question response))"

definition logQuery :: "string \<Rightarrow> duration \<Rightarrow> Msg \<Rightarrow> 'w Server \<Rightarrow> 'w Server" where
  "logQuery source duration response s =
     s\<lparr> query_log := query_log s @ logQuery_records source duration response \<rparr>"

text \<open>\<^verbatim>\<open>sendServfail\<close> (src/server.go, lines 68 to 74).\<close>

definition sendServfail :: "duration \<Rightarrow> Msg \<Rightarrow> 'w Server \<Rightarrow> 'w Server" where
  "sendServfail duration r s =
     (let s1 = s\<lparr> LocalServfailsCounter := LocalServfailsCounter s + 1 \<rparr>;
          m = SetRcode empty_Msg r RcodeServerFailure;
          s2 = s1\<lparr> written := written s1 @ [m] \<rparr>
      in logQuery ''servfail'' duration m s2)"

subsection \<open>GetConnection and attemptExchange\<close>

text \<open>\<^verbatim>\<open>newConnection\<close> (src/mutex_server.go, lines 35 to 54).\<close>

definition newConnection ::
  "'w Env \<Rightarrow> Upstream \<Rightarrow> 'w Server \<Rightarrow> (ConnEntry option \<times> error option) \<times> 'w Server" where
  "newConnection env up s =
     (case pool_NewConnection env up (world s) of
        ((ce, err), w1) \<Rightarrow>
          (let s1 = record_call (PoolNewConnection up) (s\<lparr> world := w1 \<rparr>)
           in (case err of
                 Some e \<Rightarrow>
                   ((Some empty_ConnEntry, Some (CouldNotConnect (Upstream_GetAddress up) e)), s1)
               | None \<Rightarrow> ((ce, None), s1))))"

text \<open>
  The tail of GetConnection, reached on a pool hit and after a successful dial alike:
  \<^verbatim>\<open>ce.GetAddress()\<close> (a nil entry panics), the counter of reused connections, the return.
\<close>

definition GetConnection_hit ::
  "ConnEntry option \<Rightarrow> 'w Server \<Rightarrow> (panic + ConnEntry option \<times> error option) \<times> 'w Server" where
  "GetConnection_hit ce s =
     (case ce of
        None \<Rightarrow> (Inl NilDereference, s)
      | Some c \<Rightarrow>
          (Inr (Some c, None),
           s\<lparr> ReusedConnectionsCounter := Inc (ReusedConnectionsCounter s) (GetAddress c) \<rparr>))"

text \<open>\<^verbatim>\<open>GetConnection\<close> (src/mutex_server.go, lines 56 to 96).\<close>

definition GetConnection ::
  "'w Env \<Rightarrow> 'w Server \<Rightarrow> (panic + ConnEntry option \<times> error option) \<times> 'w Server" where
  "GetConnection env s =
     (case pool_Get env (world s) of
        ((ce, up, err), w1) \<Rightarrow>
          (let s1 = record_call PoolGet (s\<lparr> world := w1 \<rparr>)
           in if err = None \<and> up \<noteq> empty_Upstream then
                (case newConnection env up s1 of
                   ((ce', err'), s2) \<Rightarrow>
                     (case err' of
                        Some e \<Rightarrow> (Inr (Some empty_ConnEntry, Some e), s2)
                      | None \<Rightarrow> GetConnection_hit ce' s2))
              else if err \<noteq> None then (Inr (Some empty_ConnEntry, err), s1)
              else GetConnection_hit ce s1))"

text \<open>
  \<^verbatim>\<open>attemptExchange\<close> (src/mutex_server.go, lines 102 to 147). \<^verbatim>\<open>ce.AddExchange(rtt)\<close>
  stands before the test of the error. \<^verbatim>\<open>ce.Conn.(*dns.Conn)\<close> panics on a nil
  interface value, \<^verbatim>\<open>m.Question[0]\<close> on a message without question.
\<close>

definition attemptExchange ::
  "'w Env \<Rightarrow> Msg \<Rightarrow> 'w Server
     \<Rightarrow> (panic + ConnEntry option \<times> Msg option \<times> error option) \<times> 'w Server" where
  "attemptExchange env m s0 =
     (case GetConnection env (record_call EnterAttemptExchange s0) of
        (Inl p, s1) \<Rightarrow> (Inl p, s1)
      | (Inr (ce, Some e), s1) \<Rightarrow> (Inr (ce, None, Some (ErrorGettingConnection e)), s1)
      | (Inr (None, None), s1) \<Rightarrow> (Inl NilDereference, s1)
      | (Inr (Some c, None), s1) \<Rightarrow>
          (let address = GetAddress c
           in (case Conn c of
                 None \<Rightarrow> (Inl TypeAssertion, s1)
               | Some cn \<Rightarrow>
                   (case client_ExchangeWithConn env m cn (world s1) of
                      ((reply, rtt, err), w2) \<Rightarrow>
                        (let s2 = record_call (ClientExchangeWithConn m cn) (s1\<lparr> world := w2 \<rparr>);
                             c1 = AddExchange c rtt
                         in (case err of
                               None \<Rightarrow> (Inr (Some c1, reply, None), s2)
                             | Some e \<Rightarrow>
                                 (let c2 = AddError c1;
                                      s3 = record_call (PoolCloseConnection (Some c2))
                                             (s2\<lparr> world := pool_CloseConnection env (Some c2) (world s2) \<rparr>);
                                      s4 = s3\<lparr> UpstreamErrorsCounter :=
                                                 Inc (UpstreamErrorsCounter s3) address \<rparr>
                                  in (case Question m of
                                        [] \<Rightarrow> (Inl IndexOutOfRange, s4)
                                      | q # _ \<Rightarrow>
                                          (Inr (Some empty_ConnEntry, Some empty_Msg,
                                                Some (ErrorLookingUp (Name q) address)), s4)))))))))"

subsection \<open>RecursiveQuery\<close>

text \<open>
  The loop of RecursiveQuery, \<^verbatim>\<open>for i := 0; i <= config.UpstreamRetries; i++\<close>, over the
  variables \<open>ce\<close>, \<open>r\<close> and \<open>err\<close> declared before it. Each pass assigns them from
  attemptExchange and leaves the loop when the error is nil.
\<close>

type_synonym attempt = "ConnEntry option \<times> Msg option \<times> error option"

function RecursiveQuery_loop ::
  "'w Env \<Rightarrow> int \<Rightarrow> Msg \<Rightarrow> int \<Rightarrow> attempt \<Rightarrow> 'w Server \<Rightarrow> (panic + attempt) \<times> 'w Server" where
  "RecursiveQuery_loop env retries m i vars s =
     (if i \<le> retries then
        (case attemptExchange env m s of
           (Inl p, s1) \<Rightarrow> (Inl p, s1)
         | (Inr (ce, r, err), s1) \<Rightarrow>
             (if err = None then (Inr (ce, r, err), s1)
              else RecursiveQuery_loop env retries m (i + 1) (ce, r, err) s1))
      else (Inr vars, s))"
  by pat_completeness auto
termination
  by (relation "measure (\<lambda>(env, retries, m, i, vars, s). nat (retries + 1 - i))") auto

declare RecursiveQuery_loop.simps [simp del]

text \<open>
  \<^verbatim>\<open>RecursiveQuery\<close> (src/mutex_server.go, lines 149 to 212). Before the loop the three
  variables hold nil. After it, a non-nil error ends the function; otherwise the entry goes
  to \<^verbatim>\<open>connPool.Add\<close> (whose error is logged and dropped), \<^verbatim>\<open>*r\<close> is read (nil panics),
  and \<^verbatim>\<open>ce.GetAddress()\<close> gives the source.
\<close>

definition RecursiveQuery ::
  "'w Env \<Rightarrow> Configuration \<Rightarrow> string \<Rightarrow> 16 word \<Rightarrow> 'w Server
     \<Rightarrow> (panic + Response \<times> string \<times> error option) \<times> 'w Server" where
  "RecursiveQuery env config domain rrtype s0 =
     (let s1 = s0\<lparr> RecursiveQueryCounter := RecursiveQueryCounter s0 + 1 \<rparr>
      in (case dns_Id env (world s1) of
            (fresh, w1) \<Rightarrow>
              (let m = (SetQuestion empty_Msg domain rrtype fresh)\<lparr> RecursionDesired := True \<rparr>
               in (case RecursiveQuery_loop env (UpstreamRetries config) m 0 (None, None, None)
                           (s1\<lparr> world := w1 \<rparr>) of
                     (Inl p, s2) \<Rightarrow> (Inl p, s2)
                   | (Inr (ce, r, Some e), s2) \<Rightarrow>
                       (Inr (empty_Response, [], Some (FailedExchanges e)), s2)
                   | (Inr (ce, r, None), s2) \<Rightarrow>
                       (case pool_Add env ce (world s2) of
                          (add_err, w3) \<Rightarrow>
                            (let s3 = record_call (PoolAdd ce) (s2\<lparr> world := w3 \<rparr>)
                             in (case r of
                                   None \<Rightarrow> (Inl NilDereference, s3)
                                 | Some reply_msg \<Rightarrow>
                                     (case processResults reply_msg domain rrtype
                                             (time_Now env (world s3)) of
                                        (reply, err) \<Rightarrow>
                                          (case ce of
                                             None \<Rightarrow> (Inl NilDereference, s3)
                                           | Some c \<Rightarrow>
                                               (Inr (reply, GetAddress c, err), s3))))))))))"

subsection \<open>RetrieveRecords\<close>

text \<open>\<^verbatim>\<open>RetrieveRecords\<close> (src/mutex_server.go, lines 216 to 240).\<close>

definition RetrieveRecords ::
  "'w Env \<Rightarrow> Configuration \<Rightarrow> string \<Rightarrow> 16 word \<Rightarrow> 'w Server
     \<Rightarrow> (panic + Response \<times> string \<times> error option) \<times> 'w Server" where
  "RetrieveRecords env config domain rrtype s =
     (case cache_Get (Cache s) (time_Now env (world s)) domain rrtype of
        (cached_response, True) \<Rightarrow>
          (Inr (cached_response, ''cache'', None),
           s\<lparr> CacheHitsCounter := CacheHitsCounter s + 1 \<rparr>)
      | (_, False) \<Rightarrow>
          (case cache_Get (HostedCache s) (time_Now env (world s)) domain rrtype of
             (cached_response, True) \<Rightarrow>
               (Inr (cached_response, ''cache'', None),
                s\<lparr> HostedCacheHitsCounter := HostedCacheHitsCounter s + 1 \<rparr>)
           | (_, False) \<Rightarrow>
               (case RecursiveQuery env config domain rrtype s of
                  (Inl p, s1) \<Rightarrow> (Inl p, s1)
                | (Inr (response, source, Some e), s1) \<Rightarrow>
                    (Inr (response, [], Some (ErrorRecursiveQuery domain e)), s1)
                | (Inr (response, source, None), s1) \<Rightarrow>
                    (Inr (response, source, None),
                     s1\<lparr> Cache := cache_Add (Cache s1) response \<rparr>))))"

subsection \<open>HandleDNS\<close>

text \<open>
  \<^verbatim>\<open>HandleDNS\<close> (src/mutex_server.go, lines 246 to 301). \<open>msg\<close> is the local message that
  SetReply fills from the request; the domain is read from \<^verbatim>\<open>msg.Question[0]\<close>, and an
  empty slice panics. The two flags are then assigned on \<open>msg\<close>, which is not used again.
  A failed \<^verbatim>\<open>sem.Acquire\<close> panics. The timer measures from its creation to each
  \<^verbatim>\<open>ObserveDuration\<close>. The reply is the copy of the stored message after
  \<^verbatim>\<open>SetRcode(r, response.Entry.Rcode)\<close>.
\<close>

definition HandleDNS ::
  "'w Env \<Rightarrow> Configuration \<Rightarrow> Msg \<Rightarrow> 'w Server \<Rightarrow> (panic + unit) \<times> 'w Server" where
  "HandleDNS env config r s0 =
     (let s1 = s0\<lparr> TotalDnsQueriesCounter := TotalDnsQueriesCounter s0 + 1,
                   QueuedQueriesGauge := QueuedQueriesGauge s0 + 1 \<rparr>;
          started = time_Now env (world s1);
          msg = SetReply empty_Msg r
      in (case Question msg of
            [] \<Rightarrow> (Inl IndexOutOfRange, s1)
          | q # _ \<Rightarrow>
              (let domain = Name q;
                   msg = msg\<lparr> Authoritative := False, RecursionAvailable := True \<rparr>
               in (case sem_Acquire env (world s1) of
                     Some e \<Rightarrow> (Inl (AcquireFailed e), s1)
                   | None \<Rightarrow>
                       (let s2 = s1\<lparr> QueuedQueriesGauge := QueuedQueriesGauge s1 - 1 \<rparr>
                        in (case Question r of
                              [] \<Rightarrow> (Inl IndexOutOfRange, s2)
                            | rq # _ \<Rightarrow>
                                (case RetrieveRecords env config domain (Qtype rq) s2 of
                                   (Inl p, s3) \<Rightarrow> (Inl p, s3)
                                 | (Inr (response, source, Some e), s3) \<Rightarrow>
                                     (let duration = time_Now env (world s3) - started
                                      in (Inr (), sendServfail duration r s3))
                                 | (Inr (response, source, None), s3) \<Rightarrow>
                                     (let reply = SetRcode (Copy (Entry response)) r
                                                    (Rcode (Entry response));
                                          s4 = s3\<lparr> written := written s3 @ [reply] \<rparr>;
                                          duration = time_Now env (world s4) - started
                                      in (Inr (), logQuery source duration reply s4)))))))))"

subsection \<open>The specification's TTL rule\<close>

text \<open>
  The rule of section 4.3 in the specification's words, for comparison with
  processResults: the minimum over the answer records of their TTL, floored at 0, and 0
  for a message without answers. A record's TTL counts seconds.
\<close>

definition rr_ttl :: "RR \<Rightarrow> duration" where
  "rr_ttl a = uint (Hdr_Ttl a) * Second"

definition spec_min_ttl :: "Msg \<Rightarrow> duration" where
  "spec_min_ttl m =
     (case Answer m of
        [] \<Rightarrow> 0
      | a # as \<Rightarrow> max 0 (fold min (map rr_ttl as) (rr_ttl a)))"

subsection \<open>Test doubles\<close>

text \<open>
  A server as NewMutexServer leaves it: both caches empty, every counter at zero.
\<close>

definition new_Server :: "'w \<Rightarrow> 'w Server" where
  "new_Server w =
     \<lparr> Cache = Map.empty, HostedCache = Map.empty, world = w,
       TotalDnsQueriesCounter = 0, QueuedQueriesGauge = 0, CacheHitsCounter = 0,
       HostedCacheHitsCounter = 0, RecursiveQueryCounter = 0, LocalServfailsCounter = 0,
       UpstreamErrorsCounter = (\<lambda>_. 0), ReusedConnectionsCounter = (\<lambda>_. 0),
       calls = [], written = [], query_log = [] \<rparr>"

text \<open>
  A fake pool and client in the manner of the repository's mocks. The pool is empty and
  knows the one upstream \<open>u1\<close>: Get reports a miss, NewConnection dials connection 7.
  Every exchange takes 5 ns and has the outcome \<open>exchange\<close>; Add answers \<open>add\<close>. The
  world is the clock, which no call advances.
\<close>

definition u1 :: Upstream where
  "u1 = \<lparr> Upstream_Name = ''u1'', Weight = 0, Address = [] \<rparr>"

definition dialed :: "Upstream \<Rightarrow> ConnEntry" where
  "dialed up = \<lparr> Conn = Some 7, upstream = up, totalRTT = 0, exchanges = 0, errors = 0 \<rparr>"

definition fake_env :: "Msg option \<times> error option \<Rightarrow> error option \<Rightarrow> instant Env" where
  "fake_env exchange add =
     \<lparr> pool_Get = (\<lambda>w. ((Some empty_ConnEntry, u1, None), w)),
       pool_NewConnection = (\<lambda>up w. ((Some (dialed up), None), w)),
       pool_Add = (\<lambda>ce w. (add, w)),
       pool_CloseConnection = (\<lambda>ce w. w),
       client_ExchangeWithConn = (\<lambda>m c w. ((fst exchange, 5, snd exchange), w)),
       dns_Id = (\<lambda>w. (4660, w)),
       time_Now = (\<lambda>w. w),
       sem_Acquire = (\<lambda>w. None) \<rparr>"

text \<open>The client of scenario (d): every exchange fails.\<close>

definition failing_env :: "instant Env" where
  "failing_env = fake_env (None, Some (External ''EOF'')) None"

text \<open>
  An A record as the library renders it, the fields of the header separated by tabs,
  and an upstream's reply that carries it.
\<close>

definition rr_foo :: RR where
  "rr_foo = \<lparr> Hdr_Name = ''foo.test.'', Hdr_Rrtype = TypeA, Hdr_Class = ClassINET,
     Hdr_Ttl = 30,
     rr_String = ''foo.test.'' @ [CHR 0x09] @ ''30'' @ [CHR 0x09] @ ''IN'' @ [CHR 0x09]
                 @ ''A'' @ [CHR 0x09] @ ''5.6.7.8'' \<rparr>"

definition reply_foo :: Msg where
  "reply_foo = empty_Msg\<lparr> MsgId := 4660, Response_bit := True, RecursionDesired := True,
     RecursionAvailable := True,
     Question := [\<lparr> Name = ''foo.test.'', Qtype = TypeA, Qclass = ClassINET \<rparr>],
     Answer := [rr_foo] \<rparr>"

definition answering_env :: "instant Env" where
  "answering_env = fake_env (Some reply_foo, None) None"

text \<open>An upstream that answers as the authority for the name and offers no recursion.\<close>

definition authoritative_env :: "instant Env" where
  "authoritative_env =
     fake_env (Some (reply_foo\<lparr> Authoritative := True, RecursionAvailable := False \<rparr>), None) None"

text \<open>The same upstream behind a pool whose Add turns the entry down.\<close>

definition rejecting_env :: "instant Env" where
  "rejecting_env = fake_env (Some reply_foo, None) (Some (External ''pool full''))"

text \<open>A client's query for \<open>foo.test. A\<close>, and the configuration of scenario (d).\<close>

definition query_foo :: Msg where
  "query_foo = empty_Msg\<lparr> MsgId := 77, RecursionDesired := True,
     Question := [\<lparr> Name = ''foo.test.'', Qtype = TypeA, Qclass = ClassINET \<rparr>] \<rparr>"

definition config_d :: Configuration where
  "config_d = \<lparr> UpstreamRetries = 1 \<rparr>"

text \<open>A configuration file that gives \<open>upstream_retries\<close> as \<open>-1\<close>.\<close>

definition config_negative :: Configuration where
  "config_negative = \<lparr> UpstreamRetries = - 1 \<rparr>"

text \<open>
  A server whose hosted cache holds the zone record \<open>foo.test. A\<close>, parsed and loaded at
  time 0 as \<^verbatim>\<open>main\<close> does it.
\<close>

definition hosting_Server :: "instant Server" where
  "hosting_Server =
     (case ParseZoneFile [Inr rr_foo] 0 [] of
        Inl e \<Rightarrow> new_Server 100
      | Inr responses \<Rightarrow> (new_Server 100)\<lparr> HostedCache := load_zone responses Map.empty \<rparr>)"

text \<open>
  The server of scenario (a): the lookup cache holds an answer for \<open>foo.test. A\<close>,
  stored at time 0 with a TTL of 60 seconds.
\<close>

definition seeded_Server :: "instant Server" where
  "seeded_Server =
     (new_Server 100)\<lparr> Cache := cache_Add Map.empty
        \<lparr> Key = ''foo.test.'', Entry = reply_foo, Ttl = 60 * Second, Qtype_resp = TypeA,
          CreationTime = 0 \<rparr> \<rparr>"

subsection \<open>Observations on a run\<close>

text \<open>
  \<open>with_Add_error e env\<close> is the environment \<open>env\<close> with a pool whose Add has the same
  effect and returns the error value \<open>e\<close>.
\<close>

definition with_Add_error :: "error option \<Rightarrow> 'w Env \<Rightarrow> 'w Env" where
  "with_Add_error e env = env\<lparr> pool_Add := (\<lambda>ce w. (e, snd (pool_Add env ce w))) \<rparr>"

text \<open>The number of entries into attemptExchange that a server has recorded.\<close>

definition attempt_calls :: "'w Server \<Rightarrow> nat" where
  "attempt_calls s = length (filter (\<lambda>c. c = EnterAttemptExchange) (calls s))"

text \<open>
  \<open>upstream_frame s s'\<close>: the parts of the server that the work on the upstream side
  (GetConnection, attemptExchange, the retry loop) leaves alone.
\<close>

definition upstream_frame :: "'w Server \<Rightarrow> 'w Server \<Rightarrow> bool" where
  "upstream_frame s s' \<longleftrightarrow>
     Cache s' = Cache s \<and> HostedCache s' = HostedCache s \<and>
     TotalDnsQueriesCounter s' = TotalDnsQueriesCounter s \<and>
     QueuedQueriesGauge s' = QueuedQueriesGauge s \<and>
     CacheHitsCounter s' = CacheHitsCounter s \<and>
     HostedCacheHitsCounter s' = HostedCacheHitsCounter s \<and>
     RecursiveQueryCounter s' = RecursiveQueryCounter s \<and>
     LocalServfailsCounter s' = LocalServfailsCounter s \<and>
     written s' = written s \<and> query_log s' = query_log s"

text \<open>
  The server as the goroutine of HandleDNS finds it: the query counted, and the gauge of
  queued queries raised and lowered again.
\<close>

definition admitted :: "'w Server \<Rightarrow> 'w Server" where
  "admitted s = s\<lparr> TotalDnsQueriesCounter := TotalDnsQueriesCounter s + 1,
                   QueuedQueriesGauge := QueuedQueriesGauge s + 1 - 1 \<rparr>"

section \<open>Properties\<close>

subsection \<open>Unfolding lemmas\<close>

lemmas fake_defs = fake_env_def failing_env_def answering_env_def rejecting_env_def
  authoritative_env_def u1_def dialed_def rr_foo_def reply_foo_def query_foo_def config_d_def
  config_negative_def hosting_Server_def seeded_Server_def load_zone_def new_Server_def

lemmas msg_defs = SetReply_def SetRcode_def SetQuestion_def Copy_def empty_Msg_def
  OpcodeQuery_def RcodeSuccess_def RcodeServerFailure_def ClassINET_def TypeA_def

lemmas conn_defs = empty_Upstream_def Upstream_GetAddress_def empty_ConnEntry_def AddExchange_def
  AddError_def GetAddress_def

lemmas cache_defs = lowercase_def lower_char_def live_def cache_Get_def cache_Add_def
  empty_Response_def zone_Response_def Second_def

lemmas server_defs = record_call_def Inc_def logQuery_record_def logQuery_records_def logQuery_def
  sendServfail_def newConnection_def GetConnection_hit_def GetConnection_def attemptExchange_def
  RecursiveQuery_def RetrieveRecords_def HandleDNS_def processResults_def

subsection \<open>What the upstream side leaves alone\<close>

lemma upstream_frame_refl: "upstream_frame s s"
  by (simp add: upstream_frame_def)

lemma upstream_frame_trans: "upstream_frame s s1 \<Longrightarrow> upstream_frame s1 s2 \<Longrightarrow> upstream_frame s s2"
  by (simp add: upstream_frame_def)

lemma newConnection_frame:
  "upstream_frame s (snd (newConnection env up s))"
  by (simp add: newConnection_def upstream_frame_def record_call_def Let_def split: prod.splits option.splits)

lemma newConnection_calls:
  "calls (snd (newConnection env up s)) = calls s @ [PoolNewConnection up]"
  by (simp add: newConnection_def record_call_def Let_def split: prod.splits option.splits)

lemma GetConnection_hit_frame: "upstream_frame s (snd (GetConnection_hit ce s))"
  by (simp add: GetConnection_hit_def upstream_frame_def split: option.splits)

lemma GetConnection_hit_calls: "calls (snd (GetConnection_hit ce s)) = calls s"
  by (simp add: GetConnection_hit_def split: option.splits)

lemma GetConnection_frame: "upstream_frame s (snd (GetConnection env s))"
  by (auto simp add: GetConnection_def newConnection_def GetConnection_hit_def upstream_frame_def
      record_call_def Let_def split: prod.splits option.splits)

lemma GetConnection_attempt_calls: "attempt_calls (snd (GetConnection env s)) = attempt_calls s"
  by (simp add: GetConnection_def attempt_calls_def record_call_def Let_def newConnection_def
      GetConnection_hit_def split: prod.splits option.splits)

lemma GetConnection_calls_prefix: "\<exists>cs. calls (snd (GetConnection env s)) = calls s @ cs"
  by (auto simp add: GetConnection_def newConnection_def GetConnection_hit_def record_call_def
      Let_def split: prod.splits option.splits)

lemma attemptExchange_frame: "upstream_frame s (snd (attemptExchange env m s))"
proof -
  let ?s0 = "record_call EnterAttemptExchange s"
  have f0: "upstream_frame s ?s0"
    by (simp add: upstream_frame_def record_call_def)
  have f1: "upstream_frame s (snd (GetConnection env ?s0))"
    by (rule upstream_frame_trans [OF f0 GetConnection_frame])
  show ?thesis
    using f1
    by (auto simp add: attemptExchange_def upstream_frame_def record_call_def Let_def
        split: prod.splits option.splits sum.splits list.splits)
qed

lemma attemptExchange_attempt_calls:
  "attempt_calls (snd (attemptExchange env m s)) = attempt_calls s + 1"
proof -
  let ?s0 = "record_call EnterAttemptExchange s"
  have a0: "attempt_calls ?s0 = attempt_calls s + 1"
    by (simp add: attempt_calls_def record_call_def)
  have a1: "attempt_calls (snd (GetConnection env ?s0)) = attempt_calls s + 1"
    by (simp add: GetConnection_attempt_calls a0)
  show ?thesis
    using a1
    by (auto simp add: attemptExchange_def attempt_calls_def record_call_def Let_def
        split: prod.splits option.splits sum.splits list.splits)
qed

lemma attemptExchange_calls_prefix: "\<exists>cs. calls (snd (attemptExchange env m s)) = calls s @ cs"
proof -
  obtain cs where g: "calls (snd (GetConnection env (record_call EnterAttemptExchange s)))
      = calls s @ EnterAttemptExchange # cs"
    using GetConnection_calls_prefix [of env "record_call EnterAttemptExchange s"]
    by (auto simp add: record_call_def)
  show ?thesis
    using g
    by (auto simp add: attemptExchange_def record_call_def Let_def
        split: prod.splits option.splits sum.splits list.splits)
qed

lemma attemptExchange_success_calls:
  assumes "attemptExchange env m s = (Inr (ce, r, None), s1)"
  shows "\<exists>c cn cs. ce = Some c \<and> Conn c = Some cn \<and>
           calls s1 = calls s @ cs @ [ClientExchangeWithConn m cn]"
proof -
  obtain cs where g: "calls (snd (GetConnection env (record_call EnterAttemptExchange s)))
      = calls s @ EnterAttemptExchange # cs"
    using GetConnection_calls_prefix [of env "record_call EnterAttemptExchange s"]
    by (auto simp add: record_call_def)
  show ?thesis
    using assms g
    by (auto simp add: attemptExchange_def record_call_def AddExchange_def Let_def
        split: prod.splits option.splits sum.splits list.splits)
qed

subsection \<open>The retry loop\<close>

text \<open>
  One pass of the loop, by the outcome of attemptExchange: the loop ends when the counter
  has passed the retry count, on a panic, and on the first success; a failed attempt leads
  to the next pass.
\<close>

lemma RecursiveQuery_loop_done:
  "\<not> i \<le> retries \<Longrightarrow> RecursiveQuery_loop env retries m i vars s = (Inr vars, s)"
  by (simp add: RecursiveQuery_loop.simps [of env retries m i vars s])

lemma RecursiveQuery_loop_panic:
  "i \<le> retries \<Longrightarrow> attemptExchange env m s = (Inl p, s1) \<Longrightarrow>
     RecursiveQuery_loop env retries m i vars s = (Inl p, s1)"
  by (simp add: RecursiveQuery_loop.simps [of env retries m i vars s])

lemma RecursiveQuery_loop_success:
  "i \<le> retries \<Longrightarrow> attemptExchange env m s = (Inr (ce, r, None), s1) \<Longrightarrow>
     RecursiveQuery_loop env retries m i vars s = (Inr (ce, r, None), s1)"
  by (simp add: RecursiveQuery_loop.simps [of env retries m i vars s])

lemma RecursiveQuery_loop_retry:
  "i \<le> retries \<Longrightarrow> attemptExchange env m s = (Inr (ce, r, Some e), s1) \<Longrightarrow>
     RecursiveQuery_loop env retries m i vars s =
       RecursiveQuery_loop env retries m (i + 1) (ce, r, Some e) s1"
  by (simp add: RecursiveQuery_loop.simps [of env retries m i vars s])

lemma attemptExchange_cases:
  obtains (panic) p s1 where "attemptExchange env m s = (Inl p, s1)"
  | (success) ce r s1 where "attemptExchange env m s = (Inr (ce, r, None), s1)"
  | (failure) ce r e s1 where "attemptExchange env m s = (Inr (ce, r, Some e), s1)"
proof (cases "attemptExchange env m s")
  case (Pair res s1)
  show ?thesis
  proof (cases res)
    case (Inl p)
    with Pair panic show ?thesis by simp
  next
    case (Inr t)
    obtain ce r err where "t = (ce, r, err)" by (cases t)
    with Pair Inr success failure show ?thesis by (cases err) auto
  qed
qed

lemma RecursiveQuery_loop_frame:
  "upstream_frame s (snd (RecursiveQuery_loop env retries m i vars s))"
proof (induction "nat (retries + 1 - i)" arbitrary: i vars s)
  case 0
  then have "\<not> i \<le> retries" by simp
  then show ?case by (simp add: RecursiveQuery_loop_done upstream_frame_refl)
next
  case (Suc n)
  then have le: "i \<le> retries" by simp
  show ?case
  proof (cases rule: attemptExchange_cases [of env m s])
    case (panic p s1)
    with le attemptExchange_frame [of s env m] show ?thesis
      by (simp add: RecursiveQuery_loop_panic)
  next
    case (success ce r s1)
    with le attemptExchange_frame [of s env m] show ?thesis
      by (simp add: RecursiveQuery_loop_success)
  next
    case (failure ce r e s1)
    have n: "n = nat (retries + 1 - (i + 1))" using Suc.hyps(2) by simp
    have f1: "upstream_frame s s1" using failure attemptExchange_frame [of s env m] by simp
    from le failure upstream_frame_trans [OF f1 Suc.hyps(1) [OF n]] show ?thesis
      by (simp add: RecursiveQuery_loop_retry)
  qed
qed

text \<open>
  Whatever the attempts return, the loop enters attemptExchange at most
  \<open>retries + 1 - i\<close> times from pass \<open>i\<close> on.
\<close>

lemma RecursiveQuery_loop_attempts_le:
  "attempt_calls (snd (RecursiveQuery_loop env retries m i vars s))
     \<le> attempt_calls s + nat (retries + 1 - i)"
proof (induction "nat (retries + 1 - i)" arbitrary: i vars s)
  case 0
  then have "\<not> i \<le> retries" by simp
  then show ?case by (simp add: RecursiveQuery_loop_done)
next
  case (Suc n)
  then have le: "i \<le> retries" by simp
  show ?case
  proof (cases rule: attemptExchange_cases [of env m s])
    case (panic p s1)
    with le attemptExchange_attempt_calls [of env m s] show ?thesis
      by (simp add: RecursiveQuery_loop_panic)
  next
    case (success ce r s1)
    with le attemptExchange_attempt_calls [of env m s] show ?thesis
      by (simp add: RecursiveQuery_loop_success)
  next
    case (failure ce r e s1)
    have n: "n = nat (retries + 1 - (i + 1))" using Suc.hyps(2) by simp
    have a1: "attempt_calls s1 = attempt_calls s + 1"
      using failure attemptExchange_attempt_calls [of env m s] by simp
    from le failure a1 Suc.hyps(1) [OF n, of "(ce, r, Some e)" s1] Suc.hyps(2) show ?thesis
      by (simp add: RecursiveQuery_loop_retry)
  qed
qed

text \<open>
  A loop that ends with an error has made every pass from \<open>i\<close> to \<open>retries\<close>, each
  with an attempt that failed: \<open>retries + 1 - i\<close> entries into attemptExchange.
\<close>

lemma RecursiveQuery_loop_error_attempts:
  "RecursiveQuery_loop env retries m i vars s = (Inr (ce, r, Some e), s') \<Longrightarrow> i \<le> retries \<Longrightarrow>
     attempt_calls s' = attempt_calls s + nat (retries + 1 - i)"
proof (induction "nat (retries - i)" arbitrary: i vars s)
  case 0
  then have eq: "i = retries" by simp
  show ?case
  proof (cases rule: attemptExchange_cases [of env m s])
    case (panic p s1)
    with 0 show ?thesis by (simp add: RecursiveQuery_loop_panic)
  next
    case (success ce1 r1 s1)
    with 0 show ?thesis by (simp add: RecursiveQuery_loop_success)
  next
    case (failure ce1 r1 e1 s1)
    have "attempt_calls s1 = attempt_calls s + 1"
      using failure attemptExchange_attempt_calls [of env m s] by simp
    with failure 0 eq show ?thesis
      by (simp add: RecursiveQuery_loop_retry RecursiveQuery_loop_done)
  qed
next
  case (Suc n)
  then have lt: "i < retries" by simp
  show ?case
  proof (cases rule: attemptExchange_cases [of env m s])
    case (panic p s1)
    with Suc.prems show ?thesis by (simp add: RecursiveQuery_loop_panic)
  next
    case (success ce1 r1 s1)
    with Suc.prems show ?thesis by (simp add: RecursiveQuery_loop_success)
  next
    case (failure ce1 r1 e1 s1)
    have a1: "attempt_calls s1 = attempt_calls s + 1"
      using failure attemptExchange_attempt_calls [of env m s] by simp
    have n: "n = nat (retries - (i + 1))" using Suc.hyps(2) by simp
    have le: "i + 1 \<le> retries" using lt by simp
    have l: "RecursiveQuery_loop env retries m (i + 1) (ce1, r1, Some e1) s1 = (Inr (ce, r, Some e), s')"
      using failure Suc.prems by (simp add: RecursiveQuery_loop_retry)
    have "nat (retries + 1 - i) = nat (retries + 1 - (i + 1)) + 1" using lt by simp
    with Suc.hyps(1) [OF n l le] a1 show ?thesis by simp
  qed
qed

lemma RecursiveQuery_loop_success_calls:
  "RecursiveQuery_loop env retries m i vars s = (Inr (ce, r, None), s') \<Longrightarrow>
     (vars = (ce, r, None) \<and> s' = s) \<or>
     (\<exists>c cn cs. ce = Some c \<and> Conn c = Some cn \<and>
        calls s' = calls s @ cs @ [ClientExchangeWithConn m cn])"
proof (induction "nat (retries + 1 - i)" arbitrary: i vars s)
  case 0
  then have "\<not> i \<le> retries" by simp
  with 0 show ?case by (simp add: RecursiveQuery_loop_done)
next
  case (Suc n)
  then have le: "i \<le> retries" by simp
  show ?case
  proof (cases rule: attemptExchange_cases [of env m s])
    case (panic p s1)
    with le Suc.prems show ?thesis by (simp add: RecursiveQuery_loop_panic)
  next
    case (success ce1 r1 s1)
    with le Suc.prems attemptExchange_success_calls [of env m s ce1 r1 s1] show ?thesis
      by (simp add: RecursiveQuery_loop_success)
  next
    case (failure ce1 r1 e s1)
    have n: "n = nat (retries + 1 - (i + 1))" using Suc.hyps(2) by simp
    have l: "RecursiveQuery_loop env retries m (i + 1) (ce1, r1, Some e) s1 = (Inr (ce, r, None), s')"
      using le failure Suc.prems by (simp add: RecursiveQuery_loop_retry)
    obtain cs1 where p: "calls s1 = calls s @ cs1"
      using attemptExchange_calls_prefix [of env m s] failure by auto
    from Suc.hyps(1) [OF n l] obtain c cn cs where
      "ce = Some c" "Conn c = Some cn" "calls s' = calls s1 @ cs @ [ClientExchangeWithConn m cn]"
      by auto
    with p have "ce = Some c \<and> Conn c = Some cn \<and>
        calls s' = calls s @ (cs1 @ cs) @ [ClientExchangeWithConn m cn]"
      by simp
    then show ?thesis by blast
  qed
qed

subsection \<open>RecursiveQuery and RetrieveRecords, path by path\<close>

lemma RecursiveQuery_frame:
  "Cache (snd (RecursiveQuery env config domain rrtype s)) = Cache s \<and>
   HostedCache (snd (RecursiveQuery env config domain rrtype s)) = HostedCache s \<and>
   RecursiveQueryCounter (snd (RecursiveQuery env config domain rrtype s))
     = RecursiveQueryCounter s + 1 \<and>
   written (snd (RecursiveQuery env config domain rrtype s)) = written s \<and>
   query_log (snd (RecursiveQuery env config domain rrtype s)) = query_log s"
proof -
  obtain fresh w1 where id: "dns_Id env (world s) = (fresh, w1)"
    by (cases "dns_Id env (world s)")
  let ?m = "(SetQuestion empty_Msg domain rrtype fresh)\<lparr> RecursionDesired := True \<rparr>"
  let ?s1 = "s\<lparr> RecursiveQueryCounter := RecursiveQueryCounter s + 1, world := w1 \<rparr>"
  have f: "upstream_frame ?s1
      (snd (RecursiveQuery_loop env (UpstreamRetries config) ?m 0 (None, None, None) ?s1))"
    by (rule RecursiveQuery_loop_frame)
  show ?thesis
    using f id
    by (auto simp add: RecursiveQuery_def Let_def upstream_frame_def record_call_def
        processResults_def split: prod.splits sum.splits option.splits)
qed

lemma RecursiveQuery_success_calls:
  assumes "RecursiveQuery env config domain rrtype s = (Inr (resp, addr, None), s')"
  shows "\<exists>c cn m cs. calls s' = calls s @ cs @ [ClientExchangeWithConn m cn, PoolAdd (Some c)] \<and>
           Conn c = Some cn \<and> GetAddress c = addr \<and>
           Question m = [\<lparr> Name = domain, Qtype = rrtype, Qclass = ClassINET \<rparr>]"
proof -
  obtain fresh w1 where id: "dns_Id env (world s) = (fresh, w1)"
    by (cases "dns_Id env (world s)")
  let ?m = "(SetQuestion empty_Msg domain rrtype fresh)\<lparr> RecursionDesired := True \<rparr>"
  let ?s1 = "s\<lparr> RecursiveQueryCounter := RecursiveQueryCounter s + 1, world := w1 \<rparr>"
  obtain res s2 where
    l: "RecursiveQuery_loop env (UpstreamRetries config) ?m 0 (None, None, None) ?s1 = (res, s2)"
    by (cases "RecursiveQuery_loop env (UpstreamRetries config) ?m 0 (None, None, None) ?s1")
  from assms id l obtain c r where res: "res = Inr (Some c, r, None)"
    and s': "s' = record_call (PoolAdd (Some c)) (s2\<lparr> world := snd (pool_Add env (Some c) (world s2)) \<rparr>)"
    and addr: "addr = GetAddress c"
    by (auto simp add: RecursiveQuery_def Let_def processResults_def
        split: prod.splits sum.splits option.splits)
  from RecursiveQuery_loop_success_calls [OF l [unfolded res]]
  obtain cn cs where "Conn c = Some cn" "calls s2 = calls ?s1 @ cs @ [ClientExchangeWithConn ?m cn]"
    by auto
  then have "calls s' = calls s @ cs @ [ClientExchangeWithConn ?m cn, PoolAdd (Some c)] \<and>
      Conn c = Some cn \<and> GetAddress c = addr \<and>
      Question ?m = [\<lparr> Name = domain, Qtype = rrtype, Qclass = ClassINET \<rparr>]"
    using s' addr by (simp add: record_call_def SetQuestion_def)
  then show ?thesis by blast
qed

text \<open>
  RecursiveQuery returns an error only when the retry count is not negative and every one
  of the \<open>UpstreamRetries + 1\<close> attempts has failed.
\<close>

lemma RecursiveQuery_error_attempts:
  assumes "RecursiveQuery env config domain rrtype s = (Inr (resp, src, Some e), s')"
  shows "0 \<le> UpstreamRetries config \<and>
         attempt_calls s' = attempt_calls s + nat (UpstreamRetries config + 1) \<and>
         Cache s' = Cache s \<and> written s' = written s \<and>
         LocalServfailsCounter s' = LocalServfailsCounter s"
proof -
  obtain fresh w1 where id: "dns_Id env (world s) = (fresh, w1)"
    by (cases "dns_Id env (world s)")
  let ?m = "(SetQuestion empty_Msg domain rrtype fresh)\<lparr> RecursionDesired := True \<rparr>"
  let ?s1 = "s\<lparr> RecursiveQueryCounter := RecursiveQueryCounter s + 1, world := w1 \<rparr>"
  obtain res s2 where
    l: "RecursiveQuery_loop env (UpstreamRetries config) ?m 0 (None, None, None) ?s1 = (res, s2)"
    by (cases "RecursiveQuery_loop env (UpstreamRetries config) ?m 0 (None, None, None) ?s1")
  from assms id l obtain ce r e' where res: "res = Inr (ce, r, Some e')" and s': "s' = s2"
    by (auto simp add: RecursiveQuery_def Let_def processResults_def
        split: prod.splits sum.splits option.splits)
  have nonneg: "0 \<le> UpstreamRetries config"
  proof (rule ccontr)
    assume "\<not> 0 \<le> UpstreamRetries config"
    then show False using l res by (simp add: RecursiveQuery_loop_done)
  qed
  have c: "attempt_calls s2 = attempt_calls ?s1 + nat (UpstreamRetries config + 1 - 0)"
    using RecursiveQuery_loop_error_attempts [OF l [unfolded res] nonneg] .
  have f: "upstream_frame ?s1 s2"
    using RecursiveQuery_loop_frame [of ?s1 env "UpstreamRetries config" ?m 0 "(None, None, None)"] l
    by simp
  have c1: "attempt_calls ?s1 = attempt_calls s" by (simp add: attempt_calls_def)
  show ?thesis
    using nonneg c c1 f s' by (simp add: upstream_frame_def)
qed

text \<open>
  A negative retry count: the loop makes no pass, the three variables still hold nil, and
  RecursiveQuery panics on \<^verbatim>\<open>*r\<close>. No attempt has been made.
\<close>

lemma RecursiveQuery_negative_retries:
  assumes "UpstreamRetries config < 0"
  shows "fst (RecursiveQuery env config domain rrtype s) = Inl NilDereference \<and>
         attempt_calls (snd (RecursiveQuery env config domain rrtype s)) = attempt_calls s \<and>
         written (snd (RecursiveQuery env config domain rrtype s)) = written s"
proof -
  have "\<not> 0 \<le> UpstreamRetries config" using assms by simp
  then show ?thesis
    by (simp add: RecursiveQuery_def RecursiveQuery_loop_done Let_def record_call_def
        attempt_calls_def split: prod.splits)
qed

text \<open>
  The error value that Add returns has no part in what RecursiveQuery does or returns.
\<close>

lemma with_Add_error_sel:
  "pool_Get (with_Add_error e env) = pool_Get env"
  "pool_NewConnection (with_Add_error e env) = pool_NewConnection env"
  "pool_CloseConnection (with_Add_error e env) = pool_CloseConnection env"
  "client_ExchangeWithConn (with_Add_error e env) = client_ExchangeWithConn env"
  "dns_Id (with_Add_error e env) = dns_Id env"
  "time_Now (with_Add_error e env) = time_Now env"
  "pool_Add (with_Add_error e env) ce w = (e, snd (pool_Add env ce w))"
  by (simp_all add: with_Add_error_def)

lemma attemptExchange_with_Add_error:
  "attemptExchange (with_Add_error e env) m s = attemptExchange env m s"
  unfolding attemptExchange_def GetConnection_def newConnection_def with_Add_error_sel
  by (rule refl)

lemma RecursiveQuery_loop_with_Add_error:
  "RecursiveQuery_loop (with_Add_error e env) retries m i vars s
     = RecursiveQuery_loop env retries m i vars s"
proof (induction "nat (retries + 1 - i)" arbitrary: i vars s)
  case 0
  then have "\<not> i \<le> retries" by simp
  then show ?case by (simp add: RecursiveQuery_loop_done)
next
  case (Suc n)
  then have le: "i \<le> retries" by simp
  show ?case
  proof (cases rule: attemptExchange_cases [of env m s])
    case (panic p s1)
    with le show ?thesis
      by (simp add: RecursiveQuery_loop_panic attemptExchange_with_Add_error)
  next
    case (success ce r s1)
    with le show ?thesis
      by (simp add: RecursiveQuery_loop_success attemptExchange_with_Add_error)
  next
    case (failure ce r e' s1)
    have n: "n = nat (retries + 1 - (i + 1))" using Suc.hyps(2) by simp
    from le failure Suc.hyps(1) [OF n, of "(ce, r, Some e')" s1] show ?thesis
      by (simp add: RecursiveQuery_loop_retry attemptExchange_with_Add_error)
  qed
qed

lemma RecursiveQuery_with_Add_error:
  "RecursiveQuery (with_Add_error e env) config domain rrtype s
     = RecursiveQuery env config domain rrtype s"
  by (auto simp add: RecursiveQuery_def RecursiveQuery_loop_with_Add_error with_Add_error_sel
      Let_def split: prod.splits sum.splits option.splits)

lemma RetrieveRecords_lookup_hit:
  "cache_Get (Cache s) (time_Now env (world s)) domain rrtype = (resp, True) \<Longrightarrow>
     RetrieveRecords env config domain rrtype s
       = (Inr (resp, ''cache'', None), s\<lparr> CacheHitsCounter := CacheHitsCounter s + 1 \<rparr>)"
  by (simp add: RetrieveRecords_def)

lemma RetrieveRecords_hosted_hit:
  "snd (cache_Get (Cache s) (time_Now env (world s)) domain rrtype) = False \<Longrightarrow>
   cache_Get (HostedCache s) (time_Now env (world s)) domain rrtype = (resp, True) \<Longrightarrow>
     RetrieveRecords env config domain rrtype s
       = (Inr (resp, ''cache'', None),
          s\<lparr> HostedCacheHitsCounter := HostedCacheHitsCounter s + 1 \<rparr>)"
  by (cases "cache_Get (Cache s) (time_Now env (world s)) domain rrtype")
    (simp add: RetrieveRecords_def)

lemma RetrieveRecords_miss:
  "snd (cache_Get (Cache s) (time_Now env (world s)) domain rrtype) = False \<Longrightarrow>
   snd (cache_Get (HostedCache s) (time_Now env (world s)) domain rrtype) = False \<Longrightarrow>
     RetrieveRecords env config domain rrtype s
       = (case RecursiveQuery env config domain rrtype s of
            (Inl p, s1) \<Rightarrow> (Inl p, s1)
          | (Inr (response, source, Some e), s1) \<Rightarrow>
              (Inr (response, [], Some (ErrorRecursiveQuery domain e)), s1)
          | (Inr (response, source, None), s1) \<Rightarrow>
              (Inr (response, source, None), s1\<lparr> Cache := cache_Add (Cache s1) response \<rparr>))"
  by (cases "cache_Get (Cache s) (time_Now env (world s)) domain rrtype";
      cases "cache_Get (HostedCache s) (time_Now env (world s)) domain rrtype")
    (simp add: RetrieveRecords_def)

subsection \<open>sendServfail, the query logger and the reply\<close>

lemma split_space_not_empty: "split_space s \<noteq> []"
  by (induction s) (auto split: list.splits)

lemma sendServfail_effect:
  "written (sendServfail duration r s) = written s @ [SetRcode empty_Msg r RcodeServerFailure] \<and>
   LocalServfailsCounter (sendServfail duration r s) = LocalServfailsCounter s + 1 \<and>
   Cache (sendServfail duration r s) = Cache s \<and>
   HostedCache (sendServfail duration r s) = HostedCache s \<and>
   calls (sendServfail duration r s) = calls s"
  by (simp add: sendServfail_def logQuery_def Let_def)

lemma SetRcode_servfail:
  "Question r = q # qs \<Longrightarrow>
     MsgId (SetRcode empty_Msg r RcodeServerFailure) = MsgId r \<and>
     Question (SetRcode empty_Msg r RcodeServerFailure) = [q] \<and>
     Rcode (SetRcode empty_Msg r RcodeServerFailure) = RcodeServerFailure \<and>
     Answer (SetRcode empty_Msg r RcodeServerFailure) = []"
  by (simp add: SetRcode_def SetReply_def empty_Msg_def Let_def)

text \<open>
  The message that sendServfail builds has no answer, so the double loop of logQuery has
  nothing to run over: no record reaches the query logger.
\<close>

lemma sendServfail_logs_nothing:
  "query_log (sendServfail duration r s) = query_log s"
  by (simp add: sendServfail_def logQuery_def logQuery_records_def SetRcode_def SetReply_def
      empty_Msg_def Let_def split: list.splits)

text \<open>
  For a message with answers, logQuery emits one record for each pair of a question and an
  answer.
\<close>

lemma logQuery_records_length:
  "length (logQuery_records source duration response)
     = length (Question response) * length (Answer response)"
  by (simp add: logQuery_records_def length_concat comp_def sum_list_triv)

text \<open>
  The library separates the header fields of a record by tabs. The split is on the space
  character only, so for an A record the logged answer is the whole line.
\<close>

lemma logQuery_answer_of_tabbed_record:
  "log_answer (logQuery_record source duration response q rr_foo) = rr_String rr_foo"
  by (simp add: logQuery_record_def rr_foo_def)

text \<open>
  The reply that HandleDNS writes takes its ra and aa flags from the stored message:
  SetRcode does not touch them.
\<close>

lemma SetRcode_keeps_flags:
  "RecursionAvailable (SetRcode (Copy e) r rcode) = RecursionAvailable e \<and>
   Authoritative (SetRcode (Copy e) r rcode) = Authoritative e"
  by (simp add: SetRcode_def SetReply_def Copy_def Let_def split: list.splits)

section \<open>The claims\<close>

subsection \<open>C1: a query whose attempts all fail\<close>

text \<open>
  A run of HandleDNS that reaches the upstreams (a question, the semaphore acquired, both
  caches missing) and whose recursive query ends in an error: every attempt made has
  failed. Whatever the pool and the client, attemptExchange has then been entered
  \<open>UpstreamRetries + 1\<close> times, and one message is written to the client, with rcode
  SERVFAIL, the id of the query and its first question; the counter of local servfails has
  grown by one and the lookup cache is as before. By \<open>RecursiveQuery_error_attempts\<close> such
  a run has a retry count that is not negative.
\<close>

lemma failed_query_servfail:
  assumes q: "Question r = q # qs"
    and sem: "sem_Acquire env (world s) = None"
    and miss: "snd (cache_Get (Cache s) (time_Now env (world s)) (Name q) (Qtype q)) = False"
    and hosted_miss:
      "snd (cache_Get (HostedCache s) (time_Now env (world s)) (Name q) (Qtype q)) = False"
    and run: "RecursiveQuery env config (Name q) (Qtype q) (admitted s)
                = (Inr (resp, src, Some e), s3)"
  shows "\<exists>s' m. HandleDNS env config r s = (Inr (), s') \<and>
     attempt_calls s' = attempt_calls s + nat (UpstreamRetries config + 1) \<and>
     written s' = written s @ [m] \<and>
     Rcode m = RcodeServerFailure \<and> MsgId m = MsgId r \<and> Question m = [q] \<and>
     LocalServfailsCounter s' = LocalServfailsCounter s + 1 \<and>
     Cache s' = Cache s"
proof -
  have m1: "snd (cache_Get (Cache (admitted s)) (time_Now env (world (admitted s))) (Name q) (Qtype q)) = False"
    using miss by (simp add: admitted_def)
  have m2: "snd (cache_Get (HostedCache (admitted s)) (time_Now env (world (admitted s))) (Name q) (Qtype q)) = False"
    using hosted_miss by (simp add: admitted_def)
  have rr: "RetrieveRecords env config (Name q) (Qtype q) (admitted s)
      = (Inr (resp, [], Some (ErrorRecursiveQuery (Name q) e)), s3)"
    using run by (simp add: RetrieveRecords_miss [OF m1 m2])
  from RecursiveQuery_error_attempts [OF run]
  have rest: "attempt_calls s3 = attempt_calls (admitted s) + nat (UpstreamRetries config + 1)"
    "Cache s3 = Cache (admitted s)" "written s3 = written (admitted s)"
    "LocalServfailsCounter s3 = LocalServfailsCounter (admitted s)"
    by simp_all
  have c: "attempt_calls (admitted s) = attempt_calls s"
    by (simp add: attempt_calls_def admitted_def)
  let ?d = "time_Now env (world s3) - time_Now env (world s)"
  have h: "HandleDNS env config r s = (Inr (), sendServfail ?d r s3)"
    using q sem rr by (simp add: HandleDNS_def SetReply_def empty_Msg_def Let_def admitted_def)
  have a: "attempt_calls (sendServfail ?d r s3) = attempt_calls s3"
    using sendServfail_effect [of ?d r s3] by (simp add: attempt_calls_def)
  show ?thesis
    using h a c rest sendServfail_effect [of ?d r s3] SetRcode_servfail [OF q]
    by (simp add: admitted_def)
qed


subsection \<open>C2: the health counters in attemptExchange\<close>

text \<open>
  Claim C2 says that the exchange counter of the entry is updated exactly when the exchange
  succeeds. It is not so: \<^verbatim>\<open>ce.AddExchange(rtt)\<close> stands before the test of the error.
  With a client whose exchange fails, the freshly dialed entry (no exchange so far) reaches
  CloseConnection with one exchange and one error.
\<close>

theorem attemptExchange_counts_failed_exchange_counterexample:
  "fst (attemptExchange failing_env query_foo (new_Server 100))
     = Inr (Some empty_ConnEntry, Some empty_Msg, Some (ErrorLookingUp ''foo.test.'' ''u1:853'')) \<and>
   exchanges (dialed u1) = 0 \<and>
   last (calls (snd (attemptExchange failing_env query_foo (new_Server 100))))
     = PoolCloseConnection (Some ((dialed u1)\<lparr> totalRTT := 5, exchanges := 1, errors := 1 \<rparr>))"
  by (simp add: fake_defs msg_defs conn_defs server_defs Let_def)

text \<open>
  Claim C2, amended. After GetConnection has handed out an entry with a connection,
  AddExchange with the measured rtt is applied to it whether the exchange succeeds or not.
  On success the entry is returned with the reply. On error AddError is recorded as well,
  the pool closes the connection (it is given the entry with both updates), the counter of
  upstream errors of the address grows by one, and an error is returned together with an
  empty entry, so that the connection is not used again.
\<close>

theorem attemptExchange_outcomes:
  assumes "GetConnection env (record_call EnterAttemptExchange s) = (Inr (Some c, None), s1)"
    and "Conn c = Some cn"
    and "client_ExchangeWithConn env m cn (world s1) = ((reply, rtt, err), w2)"
    and "Question m = q # qs"
  shows "(err = None \<longrightarrow>
           attemptExchange env m s
             = (Inr (Some (AddExchange c rtt), reply, None),
                record_call (ClientExchangeWithConn m cn) (s1\<lparr> world := w2 \<rparr>))) \<and>
         (\<forall>e. err = Some e \<longrightarrow>
           (\<exists>s'. attemptExchange env m s
                   = (Inr (Some empty_ConnEntry, Some empty_Msg,
                           Some (ErrorLookingUp (Name q) (GetAddress c))), s') \<and>
                 calls s' = calls s1 @ [ClientExchangeWithConn m cn,
                              PoolCloseConnection (Some (AddError (AddExchange c rtt)))] \<and>
                 world s' = pool_CloseConnection env (Some (AddError (AddExchange c rtt))) w2 \<and>
                 UpstreamErrorsCounter s'
                   = Inc (UpstreamErrorsCounter s1) (GetAddress c)))"
  using assms by (simp add: attemptExchange_def record_call_def Let_def)

theorem attemptExchange_outcomes_witness:
  "attemptExchange answering_env query_foo (new_Server 100)
     = (Inr (Some (AddExchange (dialed u1) 5), Some reply_foo, None),
        record_call (ClientExchangeWithConn query_foo 7)
          (snd (GetConnection answering_env (record_call EnterAttemptExchange (new_Server 100))))) \<and>
   fst (attemptExchange failing_env query_foo (new_Server 100))
     = Inr (Some empty_ConnEntry, Some empty_Msg, Some (ErrorLookingUp ''foo.test.'' ''u1:853'')) \<and>
   UpstreamErrorsCounter (snd (attemptExchange failing_env query_foo (new_Server 100))) ''u1:853'' = 1"
proof -
  let ?s = "new_Server (100::int)"
  let ?q = "\<lparr> Name = ''foo.test.'', Qtype = TypeA, Qclass = ClassINET \<rparr>"
  obtain s1 where g1: "GetConnection answering_env (record_call EnterAttemptExchange ?s)
      = (Inr (Some (dialed u1), None), s1)"
    by (simp add: fake_defs conn_defs server_defs Let_def)
  have w1: "world s1 = 100" using g1 by (auto simp add: fake_defs conn_defs server_defs Let_def)
  obtain s2 where g2: "GetConnection failing_env (record_call EnterAttemptExchange ?s)
      = (Inr (Some (dialed u1), None), s2)"
    by (simp add: fake_defs conn_defs server_defs Let_def)
  have c: "Conn (dialed u1) = Some 7" by (simp add: dialed_def)
  have x1: "client_ExchangeWithConn answering_env query_foo 7 (world s1)
      = ((Some reply_foo, 5, None), world s1)"
    by (simp add: fake_defs)
  have x2: "client_ExchangeWithConn failing_env query_foo 7 (world s2)
      = ((None, 5, Some (External ''EOF'')), world s2)"
    by (simp add: fake_defs)
  have q: "Question query_foo = ?q # []" by (simp add: query_foo_def empty_Msg_def)
  have u: "UpstreamErrorsCounter s2 = (\<lambda>_. 0)"
    using g2 by (auto simp add: fake_defs conn_defs server_defs Let_def)
  show ?thesis
    using attemptExchange_outcomes [OF g1 c x1 q] attemptExchange_outcomes [OF g2 c x2 q] g1 u
    by (auto simp add: Inc_def conn_defs u1_def dialed_def)
qed

subsection \<open>C3: the Response that processResults builds\<close>

text \<open>
  The fields of the Response that processResults builds, for every reply: the creation time
  is the current instant, and the TTL is 0, the field not being set. For a reply without
  answers this is the TTL that the specification's rule gives.
\<close>

lemma processResults_fields:
  "snd (processResults r domain rrtype now) = None \<and>
   CreationTime (fst (processResults r domain rrtype now)) = now \<and>
   Entry (fst (processResults r domain rrtype now)) = r \<and>
   Key (fst (processResults r domain rrtype now)) = domain \<and>
   Qtype_resp (fst (processResults r domain rrtype now)) = rrtype \<and>
   Ttl (fst (processResults r domain rrtype now)) = 0"
  by (simp add: processResults_def)

lemma processResults_no_answers:
  "Answer r = [] \<Longrightarrow> Ttl (fst (processResults r domain rrtype now)) = spec_min_ttl r"
  by (simp add: processResults_def spec_min_ttl_def)

text \<open>
  Claim C3, at the failing input: an upstream's reply with one answer whose TTL is 30
  seconds. The creation time of the Response is the current instant, as the claim says, and
  its TTL is 0, where the minimum over the answers is 30 seconds. The other constructor of
  a Response, in ParseZoneFile, does set the TTL of its record.
\<close>

theorem processResults_leaves_ttl_unset:
  "CreationTime (fst (processResults reply_foo ''foo.test.'' TypeA 100)) = 100 \<and>
   Ttl (fst (processResults reply_foo ''foo.test.'' TypeA 100)) = 0 \<and>
   spec_min_ttl reply_foo = 30 * Second \<and>
   Ttl (zone_Response rr_foo 100) = spec_min_ttl (Entry (zone_Response rr_foo 100))"
  by (simp add: processResults_def spec_min_ttl_def zone_Response_def reply_foo_def rr_foo_def
      rr_ttl_def Second_def empty_Msg_def)

subsection \<open>C4: the return of the entry to the pool\<close>

text \<open>
  Claim C4 says that the caller closes an entry that the pool turns down. It is not so:
  with a pool whose Add answers with an error, RecursiveQuery still succeeds, and its last
  call is that Add; no CloseConnection follows.
\<close>

theorem rejected_entry_not_closed_counterexample:
  "fst (pool_Add rejecting_env (Some ((dialed u1)\<lparr> totalRTT := 5, exchanges := 1 \<rparr>)) 100)
     = Some (External ''pool full'') \<and>
   fst (RecursiveQuery rejecting_env config_d ''foo.test.'' TypeA (new_Server 100))
     = Inr (\<lparr> Key = ''foo.test.'', Entry = reply_foo, Ttl = 0, Qtype_resp = TypeA,
              CreationTime = 100 \<rparr>, ''u1:853'', None) \<and>
   calls (snd (RecursiveQuery rejecting_env config_d ''foo.test.'' TypeA (new_Server 100)))
     = [EnterAttemptExchange, PoolGet, PoolNewConnection u1,
        ClientExchangeWithConn
          ((SetQuestion empty_Msg ''foo.test.'' TypeA 4660)\<lparr> RecursionDesired := True \<rparr>) 7,
        PoolAdd (Some ((dialed u1)\<lparr> totalRTT := 5, exchanges := 1 \<rparr>))]"
  by (simp add: fake_defs msg_defs conn_defs server_defs RecursiveQuery_loop.simps Let_def)

text \<open>
  Claim C4, amended. Whenever RecursiveQuery returns successfully, the last two calls it
  has made are the successful exchange and \<^verbatim>\<open>connPool.Add(ce)\<close> for the entry that made it,
  whose address is the source returned. Add's only result is an error value, and whatever
  it is, RecursiveQuery makes the same calls and returns the same: the caller logs the error
  and drops it; it does not close the entry.
\<close>

theorem RecursiveQuery_returns_entry_to_pool:
  assumes "RecursiveQuery env config domain rrtype s = (Inr (resp, addr, None), s')"
  shows "(\<exists>c cn m cs. calls s' = calls s @ cs @ [ClientExchangeWithConn m cn, PoolAdd (Some c)] \<and>
            Conn c = Some cn \<and> GetAddress c = addr) \<and>
         (\<forall>e. RecursiveQuery (with_Add_error e env) config domain rrtype s
                = (Inr (resp, addr, None), s'))"
  using RecursiveQuery_success_calls [OF assms] assms
  by (simp add: RecursiveQuery_with_Add_error) blast

theorem RecursiveQuery_returns_entry_to_pool_witness:
  "fst (RecursiveQuery rejecting_env config_d ''foo.test.'' TypeA (new_Server 100))
     = Inr (\<lparr> Key = ''foo.test.'', Entry = reply_foo, Ttl = 0, Qtype_resp = TypeA,
              CreationTime = 100 \<rparr>, ''u1:853'', None) \<and>
   (\<exists>c cn m cs.
      calls (snd (RecursiveQuery rejecting_env config_d ''foo.test.'' TypeA (new_Server 100)))
        = cs @ [ClientExchangeWithConn m cn, PoolAdd (Some c)] \<and>
      Conn c = Some cn \<and> GetAddress c = ''u1:853'') \<and>
   RecursiveQuery (with_Add_error None rejecting_env) config_d ''foo.test.'' TypeA (new_Server 100)
     = RecursiveQuery rejecting_env config_d ''foo.test.'' TypeA (new_Server 100)"
proof -
  let ?resp = "\<lparr> Key = ''foo.test.'', Entry = reply_foo, Ttl = 0, Qtype_resp = TypeA,
      CreationTime = 100 \<rparr>"
  obtain s' where h: "RecursiveQuery rejecting_env config_d ''foo.test.'' TypeA (new_Server 100)
      = (Inr (?resp, ''u1:853'', None), s')"
    by (simp add: fake_defs msg_defs conn_defs server_defs RecursiveQuery_loop.simps Let_def)
  show ?thesis
    using h RecursiveQuery_returns_entry_to_pool [OF h] by (simp add: new_Server_def)
qed

subsection \<open>C5: RetrieveRecords\<close>

text \<open>
  Claim C5. RetrieveRecords consults the lookup cache first: on a hit it returns the cached
  response with source \<open>cache\<close> and only the counter of cache hits changes. Else it
  consults the hosted cache: on a hit it returns with source \<open>cache\<close> and only the counter
  of hosted cache hits changes. Only when both miss does it run RecursiveQuery (whose
  counter then grows by one); on success it returns RecursiveQuery's response and source,
  the address of the entry that went back to the pool, and the lookup cache gains exactly
  that response; on failure the lookup cache is as before. The hosted cache is never
  changed.
\<close>

theorem RetrieveRecords_cache_then_upstream:
  "(cache_Get (Cache s) (time_Now env (world s)) domain rrtype = (resp, True) \<longrightarrow>
      RetrieveRecords env config domain rrtype s
        = (Inr (resp, ''cache'', None), s\<lparr> CacheHitsCounter := CacheHitsCounter s + 1 \<rparr>)) \<and>
   (snd (cache_Get (Cache s) (time_Now env (world s)) domain rrtype) = False \<and>
    cache_Get (HostedCache s) (time_Now env (world s)) domain rrtype = (resp, True) \<longrightarrow>
      RetrieveRecords env config domain rrtype s
        = (Inr (resp, ''cache'', None),
           s\<lparr> HostedCacheHitsCounter := HostedCacheHitsCounter s + 1 \<rparr>)) \<and>
   (snd (cache_Get (Cache s) (time_Now env (world s)) domain rrtype) = False \<and>
    snd (cache_Get (HostedCache s) (time_Now env (world s)) domain rrtype) = False \<longrightarrow>
      RecursiveQueryCounter (snd (RetrieveRecords env config domain rrtype s))
        = RecursiveQueryCounter s + 1 \<and>
      (\<forall>response addr s1.
         RecursiveQuery env config domain rrtype s = (Inr (response, addr, None), s1) \<longrightarrow>
           RetrieveRecords env config domain rrtype s
             = (Inr (response, addr, None), s1\<lparr> Cache := cache_Add (Cache s) response \<rparr>) \<and>
           (\<exists>c. last (calls s1) = PoolAdd (Some c) \<and> addr = GetAddress c)) \<and>
      (\<forall>response addr e s1.
         RecursiveQuery env config domain rrtype s = (Inr (response, addr, Some e), s1) \<longrightarrow>
           RetrieveRecords env config domain rrtype s
             = (Inr (response, [], Some (ErrorRecursiveQuery domain e)), s1) \<and>
           Cache s1 = Cache s)) \<and>
   HostedCache (snd (RetrieveRecords env config domain rrtype s)) = HostedCache s"
proof (intro conjI impI allI)
  assume "cache_Get (Cache s) (time_Now env (world s)) domain rrtype = (resp, True)"
  then show "RetrieveRecords env config domain rrtype s
      = (Inr (resp, ''cache'', None), s\<lparr> CacheHitsCounter := CacheHitsCounter s + 1 \<rparr>)"
    by (rule RetrieveRecords_lookup_hit)
next
  assume "snd (cache_Get (Cache s) (time_Now env (world s)) domain rrtype) = False \<and>
    cache_Get (HostedCache s) (time_Now env (world s)) domain rrtype = (resp, True)"
  then show "RetrieveRecords env config domain rrtype s
      = (Inr (resp, ''cache'', None),
         s\<lparr> HostedCacheHitsCounter := HostedCacheHitsCounter s + 1 \<rparr>)"
    by (simp add: RetrieveRecords_hosted_hit)
next
  assume m: "snd (cache_Get (Cache s) (time_Now env (world s)) domain rrtype) = False \<and>
    snd (cache_Get (HostedCache s) (time_Now env (world s)) domain rrtype) = False"
  show "RecursiveQueryCounter (snd (RetrieveRecords env config domain rrtype s))
      = RecursiveQueryCounter s + 1"
    using m RecursiveQuery_frame [of env config domain rrtype s]
    by (auto simp add: RetrieveRecords_miss split: prod.splits sum.splits option.splits)
next
  fix response addr s1
  assume m: "snd (cache_Get (Cache s) (time_Now env (world s)) domain rrtype) = False \<and>
    snd (cache_Get (HostedCache s) (time_Now env (world s)) domain rrtype) = False"
    and r: "RecursiveQuery env config domain rrtype s = (Inr (response, addr, None), s1)"
  have "Cache s1 = Cache s"
    using RecursiveQuery_frame [of env config domain rrtype s] r by simp
  with m r show "RetrieveRecords env config domain rrtype s
      = (Inr (response, addr, None), s1\<lparr> Cache := cache_Add (Cache s) response \<rparr>)"
    by (simp add: RetrieveRecords_miss)
  from RecursiveQuery_success_calls [OF r]
  show "\<exists>c. last (calls s1) = PoolAdd (Some c) \<and> addr = GetAddress c"
    by auto
next
  fix response addr e s1
  assume m: "snd (cache_Get (Cache s) (time_Now env (world s)) domain rrtype) = False \<and>
    snd (cache_Get (HostedCache s) (time_Now env (world s)) domain rrtype) = False"
    and r: "RecursiveQuery env config domain rrtype s = (Inr (response, addr, Some e), s1)"
  from m r show "RetrieveRecords env config domain rrtype s
      = (Inr (response, [], Some (ErrorRecursiveQuery domain e)), s1)"
    by (simp add: RetrieveRecords_miss)
  show "Cache s1 = Cache s"
    using RecursiveQuery_frame [of env config domain rrtype s] r by simp
next
  show "HostedCache (snd (RetrieveRecords env config domain rrtype s)) = HostedCache s"
    using RecursiveQuery_frame [of env config domain rrtype s]
    by (auto simp add: RetrieveRecords_def split: prod.splits sum.splits option.splits bool.splits)
qed

theorem RetrieveRecords_cache_then_upstream_witness:
  "fst (RetrieveRecords answering_env config_d ''foo.test.'' TypeA seeded_Server)
     = Inr (\<lparr> Key = ''foo.test.'', Entry = reply_foo, Ttl = 60 * Second, Qtype_resp = TypeA,
              CreationTime = 0 \<rparr>, ''cache'', None) \<and>
   CacheHitsCounter (snd (RetrieveRecords answering_env config_d ''foo.test.'' TypeA seeded_Server)) = 1 \<and>
   fst (RetrieveRecords answering_env config_d ''foo.test.'' TypeA hosting_Server)
     = Inr (zone_Response rr_foo 0, ''cache'', None) \<and>
   HostedCacheHitsCounter
     (snd (RetrieveRecords answering_env config_d ''foo.test.'' TypeA hosting_Server)) = 1 \<and>
   fst (RetrieveRecords answering_env config_d ''foo.test.'' TypeA (new_Server 100))
     = Inr (\<lparr> Key = ''foo.test.'', Entry = reply_foo, Ttl = 0, Qtype_resp = TypeA,
              CreationTime = 100 \<rparr>, ''u1:853'', None) \<and>
   Cache (snd (RetrieveRecords answering_env config_d ''foo.test.'' TypeA (new_Server 100)))
     = cache_Add Map.empty \<lparr> Key = ''foo.test.'', Entry = reply_foo, Ttl = 0,
         Qtype_resp = TypeA, CreationTime = 100 \<rparr> \<and>
   HostedCache (snd (RetrieveRecords answering_env config_d ''foo.test.'' TypeA (new_Server 100)))
     = Map.empty"
proof -
  let ?seed = "\<lparr> Key = ''foo.test.'', Entry = reply_foo, Ttl = 60 * Second, Qtype_resp = TypeA,
      CreationTime = 0 \<rparr>"
  let ?resp = "\<lparr> Key = ''foo.test.'', Entry = reply_foo, Ttl = 0, Qtype_resp = TypeA,
      CreationTime = 100 \<rparr>"
  have hit: "cache_Get (Cache seeded_Server) (time_Now answering_env (world seeded_Server))
      ''foo.test.'' TypeA = (?seed, True)"
    by (simp add: seeded_Server_def fake_defs cache_defs)
  have miss_h: "snd (cache_Get (Cache hosting_Server)
      (time_Now answering_env (world hosting_Server)) ''foo.test.'' TypeA) = False"
    by (simp add: fake_defs cache_defs)
  have hosted: "cache_Get (HostedCache hosting_Server)
      (time_Now answering_env (world hosting_Server)) ''foo.test.'' TypeA
        = (zone_Response rr_foo 0, True)"
    by (simp add: fake_defs cache_defs msg_defs)
  have miss1: "snd (cache_Get (Cache (new_Server (100::int)))
      (time_Now answering_env (world (new_Server (100::int)))) ''foo.test.'' TypeA) = False"
    by (simp add: fake_defs cache_defs)
  have miss2: "snd (cache_Get (HostedCache (new_Server (100::int)))
      (time_Now answering_env (world (new_Server (100::int)))) ''foo.test.'' TypeA) = False"
    by (simp add: fake_defs cache_defs)
  obtain s1 where rq: "RecursiveQuery answering_env config_d ''foo.test.'' TypeA (new_Server 100)
      = (Inr (?resp, ''u1:853'', None), s1)"
    by (simp add: fake_defs msg_defs conn_defs server_defs RecursiveQuery_loop.simps Let_def)
  have a: "RetrieveRecords answering_env config_d ''foo.test.'' TypeA seeded_Server
      = (Inr (?seed, ''cache'', None),
         seeded_Server\<lparr> CacheHitsCounter := CacheHitsCounter seeded_Server + 1 \<rparr>)"
    using RetrieveRecords_cache_then_upstream [of seeded_Server answering_env "''foo.test.''"
        TypeA ?seed config_d] hit
    by blast
  have b: "RetrieveRecords answering_env config_d ''foo.test.'' TypeA hosting_Server
      = (Inr (zone_Response rr_foo 0, ''cache'', None),
         hosting_Server\<lparr> HostedCacheHitsCounter := HostedCacheHitsCounter hosting_Server + 1 \<rparr>)"
    using RetrieveRecords_cache_then_upstream [of hosting_Server answering_env "''foo.test.''"
        TypeA "zone_Response rr_foo 0" config_d] miss_h hosted
    by blast
  have c: "RetrieveRecords answering_env config_d ''foo.test.'' TypeA (new_Server 100)
      = (Inr (?resp, ''u1:853'', None),
         s1\<lparr> Cache := cache_Add (Cache (new_Server (100::int))) ?resp \<rparr>)"
    using RetrieveRecords_cache_then_upstream [of "new_Server 100" answering_env "''foo.test.''"
        TypeA ?resp config_d] miss1 miss2 rq
    by blast
  have d: "HostedCache (snd (RetrieveRecords answering_env config_d ''foo.test.'' TypeA
      (new_Server 100))) = HostedCache (new_Server (100::int))"
    using RetrieveRecords_cache_then_upstream [of "new_Server 100" answering_env "''foo.test.''"
        TypeA ?resp config_d]
    by blast
  show ?thesis
    using a b c d by (simp add: seeded_Server_def hosting_Server_def load_zone_def new_Server_def)
qed

subsection \<open>C6: the case of cache keys\<close>

text \<open>
  Claim C6 says that the Response built for caching has the lowercased domain as its key.
  It is not so: processResults stores the domain as it is given.
\<close>

theorem processResults_key_counterexample:
  "Key (fst (processResults reply_foo ''Foo.Test.'' TypeA 100)) \<noteq> lowercase ''Foo.Test.''"
  by (simp add: processResults_def lowercase_def lower_char_def)

text \<open>
  Claim C6, amended. The key of the Response that processResults builds is the domain
  exactly as queried. A lookup lowercases the queried name before keying, so two names that
  differ only in case give the same lookup result.
\<close>

theorem cache_key_case:
  "Key (fst (processResults r domain rrtype now)) = domain \<and>
   (lowercase name = lowercase name' \<longrightarrow>
      cache_Get c now name qtype = cache_Get c now name' qtype)"
  by (simp add: processResults_def cache_Get_def)

theorem cache_key_case_witness:
  "lowercase ''Foo.Test.'' = lowercase ''foo.test.'' \<and>
   Key (fst (processResults reply_foo ''Foo.Test.'' TypeA 100)) = ''Foo.Test.'' \<and>
   cache_Get (Cache seeded_Server) 100 ''Foo.Test.'' TypeA
     = cache_Get (Cache seeded_Server) 100 ''foo.test.'' TypeA \<and>
   snd (cache_Get (Cache seeded_Server) 100 ''Foo.Test.'' TypeA)"
  using cache_key_case [of reply_foo "''Foo.Test.''" TypeA 100 "''Foo.Test.''" "''foo.test.''"
      "Cache seeded_Server" TypeA]
  by (simp add: seeded_Server_def fake_defs cache_defs msg_defs)

subsection \<open>C7: the query log of a SERVFAIL\<close>

text \<open>
  Claim C7, at the failing input: a query for \<open>foo.test. A\<close> whose two attempts fail. The
  SERVFAIL is written to the client, and the query log stays empty: no record with the
  source \<open>servfail\<close> is emitted.
\<close>

theorem servfail_emits_no_log_record:
  "written (snd (HandleDNS failing_env config_d query_foo (new_Server 100)))
     = [SetRcode empty_Msg query_foo RcodeServerFailure] \<and>
   query_log (snd (HandleDNS failing_env config_d query_foo (new_Server 100))) = []"
  by (simp add: fake_defs msg_defs conn_defs cache_defs server_defs RecursiveQuery_loop.simps Let_def)

subsection \<open>C8: the flags of a reply\<close>

text \<open>
  Claim C8, at two failing inputs, both a query for \<open>foo.test. A\<close>. When the hosted
  cache answers it from a zone record, the reply is written with rcode success and the
  record as its answer, and its recursion-available flag is clear. When an upstream answers
  it with the authoritative flag set and recursion-available clear, the reply is written
  with these flags. The flags that HandleDNS sets are set on \<open>msg\<close>, not on the reply.
\<close>

theorem hosted_reply_not_recursion_available:
  "fst (HandleDNS answering_env config_d query_foo hosting_Server) = Inr () \<and>
   map Rcode (written (snd (HandleDNS answering_env config_d query_foo hosting_Server)))
     = [RcodeSuccess] \<and>
   map Answer (written (snd (HandleDNS answering_env config_d query_foo hosting_Server)))
     = [[rr_foo]] \<and>
   map RecursionAvailable
     (written (snd (HandleDNS answering_env config_d query_foo hosting_Server))) = [False] \<and>
   fst (HandleDNS authoritative_env config_d query_foo (new_Server 100)) = Inr () \<and>
   map Authoritative
     (written (snd (HandleDNS authoritative_env config_d query_foo (new_Server 100)))) = [True] \<and>
   map RecursionAvailable
     (written (snd (HandleDNS authoritative_env config_d query_foo (new_Server 100)))) = [False]"
  by (simp add: authoritative_env_def fake_defs msg_defs conn_defs cache_defs server_defs
      RecursiveQuery_loop.simps Let_def)

subsection \<open>C9: the counter of reused connections\<close>

text \<open>
  Claim C9. Every successful return of GetConnection has incremented the counter of reused
  connections at the address of the entry returned. This includes the pool miss: when Get
  names an upstream and NewConnection dials it, GetConnection returns the dialed entry and
  the counter of its address has grown by one.
\<close>

theorem GetConnection_counts_every_success:
  "(GetConnection env s = (Inr (ce, None), s') \<longrightarrow>
      (\<exists>c. ce = Some c \<and>
           ReusedConnectionsCounter s' = Inc (ReusedConnectionsCounter s) (GetAddress c))) \<and>
   (pool_Get env (world s) = ((ce0, up, None), w1) \<and> up \<noteq> empty_Upstream \<and>
    pool_NewConnection env up w1 = ((Some c1, None), w2) \<longrightarrow>
      fst (GetConnection env s) = Inr (Some c1, None) \<and>
      calls (snd (GetConnection env s)) = calls s @ [PoolGet, PoolNewConnection up] \<and>
      ReusedConnectionsCounter (snd (GetConnection env s))
        = Inc (ReusedConnectionsCounter s) (GetAddress c1))"
  by (auto simp add: GetConnection_def newConnection_def GetConnection_hit_def record_call_def
      Let_def split: prod.splits option.splits if_splits)

theorem GetConnection_counts_every_success_witness:
  "pool_Get answering_env (world (new_Server (100::int))) = ((Some empty_ConnEntry, u1, None), 100) \<and>
   u1 \<noteq> empty_Upstream \<and>
   pool_NewConnection answering_env u1 100 = ((Some (dialed u1), None), 100) \<and>
   fst (GetConnection answering_env (new_Server 100)) = Inr (Some (dialed u1), None) \<and>
   calls (snd (GetConnection answering_env (new_Server 100))) = [PoolGet, PoolNewConnection u1] \<and>
   ReusedConnectionsCounter (snd (GetConnection answering_env (new_Server 100))) ''u1:853'' = 1"
proof -
  have h1: "pool_Get answering_env (world (new_Server (100::int)))
      = ((Some empty_ConnEntry, u1, None), 100)"
    by (simp add: fake_defs)
  have h2: "u1 \<noteq> empty_Upstream" by (simp add: u1_def empty_Upstream_def)
  have h3: "pool_NewConnection answering_env u1 100 = ((Some (dialed u1), None), 100)"
    by (simp add: fake_defs)
  show ?thesis
    using h1 h2 h3
      GetConnection_counts_every_success [of answering_env "new_Server 100"
        "Some (dialed u1)" "snd (GetConnection answering_env (new_Server 100))"
        "Some empty_ConnEntry" u1 100 "dialed u1" 100]
    by (simp add: new_Server_def Inc_def conn_defs u1_def dialed_def)
qed

subsection \<open>C10: a query without question\<close>

text \<open>
  Claim C10. For an inbound message whose question section is empty, HandleDNS panics with
  an index out of range, whatever the server's state and collaborators; nothing has been
  written to the client, logged or asked of the pool.
\<close>

theorem HandleDNS_empty_question_panics:
  "Question r = [] \<Longrightarrow>
     fst (HandleDNS env config r s) = Inl IndexOutOfRange \<and>
     written (snd (HandleDNS env config r s)) = written s \<and>
     query_log (snd (HandleDNS env config r s)) = query_log s \<and>
     calls (snd (HandleDNS env config r s)) = calls s"
  by (simp add: HandleDNS_def SetReply_def empty_Msg_def Let_def)

theorem HandleDNS_empty_question_panics_witness:
  "Question empty_Msg = [] \<and>
   fst (HandleDNS answering_env config_d empty_Msg (new_Server 100)) = Inl IndexOutOfRange \<and>
   written (snd (HandleDNS answering_env config_d empty_Msg (new_Server 100))) = []"
proof -
  have h: "Question empty_Msg = []" by (simp add: empty_Msg_def)
  show ?thesis
    using h HandleDNS_empty_question_panics [OF h, of answering_env config_d "new_Server 100"]
    by (simp add: new_Server_def)
qed

end
